theory Spec2Isabelle
  imports Complex_Main
begin

section \<open>Tensors\<close>

text \<open>
  A tensor is its shape, its dtype, its device and its elements, read at a multi-index.
  Only the elements at indices inside the shape are meaningful. Numbers are exact:
  \<^typ>\<open>real\<close> for the elements of images, whatever their dtype, \<^typ>\<open>int\<close> for counts,
  \<^typ>\<open>bool\<close> for masks. The dtypes are those below.
\<close>

datatype dtype = Float32 | Float64 | Int64 | UInt8 | TorchBool

datatype device = CPU | CUDA nat

record 'a tensor =
  shape :: "nat list"
  dtype :: dtype
  device :: device
  elem :: "nat list \<Rightarrow> 'a"

definition ndim :: "'a tensor \<Rightarrow> nat" where
  "ndim t = length (shape t)"

text \<open>
  The tensor of a shape, a dtype and a device that holds one value everywhere
  (\<^verbatim>\<open>torch.ones\<close>, \<^verbatim>\<open>torch.zeros\<close>, and \<^verbatim>\<open>torch.full\<close> once its fill value is
  converted to the dtype).
\<close>

definition full :: "nat list \<Rightarrow> 'a \<Rightarrow> dtype \<Rightarrow> device \<Rightarrow> 'a tensor" where
  "full shp v dt dev = \<lparr>shape = shp, dtype = dt, device = dev, elem = (\<lambda>_. v)\<rparr>"

text \<open>\<^verbatim>\<open>t[i]\<close>: the \<open>i\<close>-th slice along the first dimension.\<close>

definition select :: "'a tensor \<Rightarrow> nat \<Rightarrow> 'a tensor" where
  "select t i = t\<lparr>shape := tl (shape t), elem := (\<lambda>idx. elem t (i # idx))\<rparr>"

text \<open>\<^verbatim>\<open>t.sum(0)\<close>: a boolean tensor sums to integer counts.\<close>

definition sum0_bool :: "bool tensor \<Rightarrow> int tensor" where
  "sum0_bool t =
     \<lparr>shape = tl (shape t), dtype = Int64, device = device t,
      elem = (\<lambda>idx. \<Sum>k\<leftarrow>[0..<hd (shape t)]. if elem t (k # idx) then 1 else 0)\<rparr>"

definition sum0_int :: "int tensor \<Rightarrow> int tensor" where
  "sum0_int t =
     \<lparr>shape = tl (shape t), dtype = Int64, device = device t,
      elem = (\<lambda>idx. \<Sum>k\<leftarrow>[0..<hd (shape t)]. elem t (k # idx))\<rparr>"

text \<open>\<^verbatim>\<open>t.item()\<close> of a zero-dimensional tensor.\<close>

definition item :: "'a tensor \<Rightarrow> 'a" where
  "item t = elem t []"

text \<open>
  The stop of the Python slice \<^verbatim>\<open>[:s]\<close> over a dimension of length \<open>n\<close>: a negative
  \<open>s\<close> counts from the end, and the slice is clipped to the dimension.
\<close>

definition slice_stop :: "nat \<Rightarrow> int \<Rightarrow> nat" where
  "slice_stop n s = (if s < 0 then nat (int n + s) else min (nat s) n)"

text \<open>The exceptions, with their messages.\<close>

datatype error =
    ValueError string
  | RuntimeError string
  | OverflowError string
  | ZeroDivisionError string

text \<open>
  A Python number given for a scalar argument of torch: an \<^verbatim>\<open>int\<close> or a finite
  \<^verbatim>\<open>float\<close>.
\<close>

datatype py_number = PyInt int | PyFloat real

text \<open>The largest finite float32, \<open>(2 - 2\<^sup>-\<^sup>2\<^sup>3) * 2\<^sup>1\<^sup>2\<^sup>7\<close>.\<close>

definition float32_max :: real where
  "float32_max = 2 ^ 128 - 2 ^ 104"

text \<open>The cast of a float to an integer drops the fraction.\<close>

definition trunc :: "real \<Rightarrow> int" where
  "trunc x = (if 0 \<le> x then \<lfloor>x\<rfloor> else \<lceil>x\<rceil>)"

definition overflow :: "string \<Rightarrow> error + real" where
  "overflow ty =
     Inl (RuntimeError (''value cannot be converted to type '' @ ty @ '' without overflow''))"

text \<open>
  The value that \<^verbatim>\<open>torch.full(size, fill_value, dtype=...)\<close> stores: the scalar
  \<^verbatim>\<open>fill_value\<close> converted to the dtype, with the checks of torch. An \<^verbatim>\<open>int\<close> that
  fits neither a signed nor an unsigned 64-bit integer is refused when the arguments are
  read. A number outside the range of the dtype raises \<^verbatim>\<open>RuntimeError\<close>, except that
  a negative \<^verbatim>\<open>int\<close> down to \<open>-255\<close> wraps around in \<^verbatim>\<open>uint8\<close>. For an integer dtype
  a \<^verbatim>\<open>float\<close> in the range loses its fraction; the cast of the float \<open>2\<^sup>6\<^sup>3\<close>, which
  passes the check of \<^verbatim>\<open>int64\<close>, gives \<open>-2\<^sup>6\<^sup>3\<close>. Every number but zero is \<^verbatim>\<open>True\<close>.
  For a floating dtype the value stored is the nearest one of the dtype, and this rounding is
  not modelled: the model stores the number itself.
\<close>

definition scalar_to :: "dtype \<Rightarrow> py_number \<Rightarrow> error + real" where
  "scalar_to dt v =
     (case v of
        PyInt i \<Rightarrow>
          if i < - (2 ^ 63) \<or> 2 ^ 64 \<le> i then
            Inl (OverflowError ''Python int too large to convert to C long'')
          else (case dt of
                  UInt8 \<Rightarrow>
                    if 255 < i \<or> i < - 255 then overflow ''uint8_t''
                    else Inr (real_of_int (i mod 256))
                | Int64 \<Rightarrow> if 2 ^ 63 \<le> i then overflow ''int64_t'' else Inr (real_of_int i)
                | TorchBool \<Rightarrow> Inr (if i = 0 then 0 else 1)
                | Float32 \<Rightarrow> Inr (real_of_int i)
                | Float64 \<Rightarrow> Inr (real_of_int i))
      | PyFloat x \<Rightarrow>
          (case dt of
             UInt8 \<Rightarrow>
               if x < 0 \<or> 255 < x then overflow ''uint8_t'' else Inr (real_of_int (trunc x))
           | Int64 \<Rightarrow>
               if x < - (2 ^ 63) \<or> 2 ^ 63 < x then overflow ''int64_t''
               else if x = 2 ^ 63 then Inr (- (2 ^ 63))
               else Inr (real_of_int (trunc x))
           | TorchBool \<Rightarrow> Inr (if x = 0 then 0 else 1)
           | Float32 \<Rightarrow>
               if x < - float32_max \<or> float32_max < x then overflow ''float''
               else Inr x
           | Float64 \<Rightarrow> Inr x))"

section \<open>BatchedImages\<close>

record BatchedImages =
  data :: "real tensor"
  image_sizes :: "(int \<times> int) list"
  mask :: "bool tensor"

subsection \<open>Private helper functions\<close>

text \<open>
  \<^verbatim>\<open>_compute_sizes_from_mask\<close>: for every item \<open>m\<close> of the mask,
  \<^verbatim>\<open>h = m.shape[0] - m.sum(0).sum(0).item()\<close> and
  \<^verbatim>\<open>w = m.shape[1] - m.sum(0).sum(0).item()\<close>.
\<close>

definition compute_sizes_from_mask :: "bool tensor \<Rightarrow> (int \<times> int) list" where
  "compute_sizes_from_mask msk =
     map (\<lambda>i. let m = select msk i;
                    h = int (shape m ! 0) - item (sum0_int (sum0_bool m));
                    w = int (shape m ! 1) - item (sum0_int (sum0_bool m))
                in (h, w))
       [0..<hd (shape msk)]"

text \<open>\<^verbatim>\<open>mask[i, :size[0], :size[1]] = False\<close>\<close>

definition clear_region :: "nat \<Rightarrow> int \<times> int \<Rightarrow> bool tensor \<Rightarrow> bool tensor" where
  "clear_region i sz m =
     m\<lparr>elem := (\<lambda>idx. case idx of
          [b, y, x] \<Rightarrow>
            if b = i \<and> y < slice_stop (shape m ! 1) (fst sz)
                 \<and> x < slice_stop (shape m ! 2) (snd sz)
            then False else elem m idx
        | _ \<Rightarrow> elem m idx)\<rparr>"

text \<open>\<^verbatim>\<open>_compute_mask_from_sizes\<close>: all ones, then each item's top-left region cleared.\<close>

definition compute_mask_from_sizes ::
  "(int \<times> int) list \<Rightarrow> nat \<Rightarrow> nat \<Rightarrow> device \<Rightarrow> bool tensor" where
  "compute_mask_from_sizes sizes max_height max_width dev =
     fold (\<lambda>(i, sz). clear_region i sz) (enumerate 0 sizes)
       (full [length sizes, max_height, max_width] True TorchBool dev)"

text \<open>\<^verbatim>\<open>_check_images\<close>: the five checks, in the order of the source.\<close>

definition check_images :: "real tensor list \<Rightarrow> error + unit" where
  "check_images images =
     (if length images = 0 then
        Inl (ValueError ''At least one image must be provided.'')
      else if \<exists>img \<in> set images. ndim img \<noteq> 3 then
        Inl (ValueError ''All images must have 3 dimensions.'')
      else if \<exists>img \<in> set images. shape img ! 0 \<noteq> shape (images ! 0) ! 0 then
        Inl (ValueError ''All images must have the same number of channels.'')
      else if \<exists>img \<in> set images. dtype img \<noteq> dtype (images ! 0) then
        Inl (ValueError ''All images must have the same dtype.'')
      else if \<exists>img \<in> set images. device img \<noteq> device (images ! 0) then
        Inl (ValueError ''All images must be on the same device.'')
      else Inr ())"

text \<open>\<^verbatim>\<open>_check_data_mask\<close>\<close>

definition check_data_mask :: "real tensor \<Rightarrow> bool tensor \<Rightarrow> error + unit" where
  "check_data_mask d m =
     (if shape d ! 0 \<noteq> shape m ! 0 \<or> drop 2 (shape d) \<noteq> drop 1 (shape m) then
        Inl (ValueError ''The data and mask are incompatible.'')
      else Inr ())"

subsection \<open>Constructor and factory method\<close>

text \<open>
  \<^verbatim>\<open>BatchedImages.__init__(data, image_sizes, mask, check_validity)\<close>: the four cases
  of the \<^verbatim>\<open>match\<close>, then the validity checks.
\<close>

definition BatchedImages_init ::
  "real tensor \<Rightarrow> (int \<times> int) list option \<Rightarrow> bool tensor option \<Rightarrow> bool
     \<Rightarrow> error + BatchedImages" where
  "BatchedImages_init d sizes_arg mask_arg check_validity_arg =
     (let r = (case (sizes_arg, mask_arg) of
          (None, None) \<Rightarrow>
            Inr (replicate (hd (shape d)) (int (shape d ! 2), int (shape d ! 3)),
                 full [hd (shape d), shape d ! 2, shape d ! 3] False TorchBool (device d),
                 False)
        | (None, Some m) \<Rightarrow> Inr (compute_sizes_from_mask m, m, check_validity_arg)
        | (Some s, None) \<Rightarrow>
            Inr (s, compute_mask_from_sizes s (shape d ! 2) (shape d ! 3) (device d),
                 check_validity_arg)
        | (Some s, Some m) \<Rightarrow>
            if check_validity_arg \<and> s \<noteq> compute_sizes_from_mask m then
              Inl (ValueError ''The image_sizes and mask are incompatible.'')
            else Inr (s, m, check_validity_arg))
      in case r of
           Inl e \<Rightarrow> Inl e
         | Inr (s, m, check_validity) \<Rightarrow>
             if check_validity \<and> device m \<noteq> device d then
               Inl (ValueError ''The data and mask must be on the same device.'')
             else if check_validity \<and> dtype m \<noteq> TorchBool then
               Inl (ValueError ''The mask must be of dtype bool.'')
             else if check_validity \<and> isl (check_data_mask d m) then
               Inl (projl (check_data_mask d m))
             else Inr \<lparr>data = d, image_sizes = s, mask = m\<rparr>)"

text \<open>
  \<^verbatim>\<open>max(...)\<close> of a sequence that the caller has checked to be non-empty.
\<close>

definition py_max :: "int list \<Rightarrow> int" where
  "py_max xs = fold max (tl xs) (hd xs)"

text \<open>\<^verbatim>\<open>data[i, :, :image.shape[1], :image.shape[2]].copy_(image)\<close>\<close>

definition copy_image :: "nat \<Rightarrow> real tensor \<Rightarrow> real tensor \<Rightarrow> real tensor" where
  "copy_image i img d =
     d\<lparr>elem := (\<lambda>idx. case idx of
          [b, c, y, x] \<Rightarrow>
            if b = i \<and> y < min (shape img ! 1) (shape d ! 2)
                 \<and> x < min (shape img ! 2) (shape d ! 3)
            then elem img [c, y, x] else elem d idx
        | _ \<Rightarrow> elem d idx)\<rparr>"

text \<open>
  \<^verbatim>\<open>BatchedImages.batch(images, padding_value)\<close>: the checks of the images, the canvas
  of \<^verbatim>\<open>torch.full\<close> in the dtype of the first image, the copies, and the constructor.
\<close>

definition batch :: "real tensor list \<Rightarrow> py_number \<Rightarrow> error + BatchedImages" where
  "batch images padding_value =
     (case check_images images of
        Inl e \<Rightarrow> Inl e
      | Inr _ \<Rightarrow>
          let sizes = map (\<lambda>img. (int (shape img ! 1), int (shape img ! 2))) images;
              max_height = py_max (map fst sizes);
              max_width = py_max (map snd sizes)
          in case scalar_to (dtype (images ! 0)) padding_value of
               Inl e \<Rightarrow> Inl e
             | Inr fill_value \<Rightarrow>
                 let canvas = full [length images, shape (images ! 0) ! 0,
                                    nat max_height, nat max_width]
                                fill_value (dtype (images ! 0)) (device (images ! 0));
                     d = fold (\<lambda>(i, img). copy_image i img) (enumerate 0 images) canvas
                 in BatchedImages_init d (Some sizes) None False)"

section \<open>BoundingBoxes\<close>

datatype BoundingBoxFormat = XYXY | XYWH | CXCYWH

text \<open>
  The coordinate tensor has shape \<open>(N, 4)\<close>: a list of rows of four numbers, so that the
  check of \<^verbatim>\<open>_check_coordinates\<close> holds by the type. The slices \<^verbatim>\<open>[..., :2]\<close> and
  \<^verbatim>\<open>[..., 2:]\<close> of a row are pairs, and \<^verbatim>\<open>torch.cat(..., dim=-1)\<close> joins two of them.
  Coordinates are exact reals, which is the arithmetic of the float32 tensors on finite
  values, up to rounding, as long as nothing overflows and no divisor is zero.
  Normalization divides by the image sides: for a side that is zero torch yields \<open>inf\<close> or
  \<open>nan\<close>, where the quotient of reals is zero. The infinities and \<open>nan\<close> are the subject of
  the float32 values at the end of this section.
\<close>

type_synonym vec2 = "real \<times> real"

type_synonym box = "real \<times> real \<times> real \<times> real"

definition first2 :: "box \<Rightarrow> vec2" where
  "first2 c = (case c of (a, b, _, _) \<Rightarrow> (a, b))"

definition last2 :: "box \<Rightarrow> vec2" where
  "last2 c = (case c of (_, _, a, b) \<Rightarrow> (a, b))"

definition cat2 :: "vec2 \<Rightarrow> vec2 \<Rightarrow> box" where
  "cat2 u v = (fst u, snd u, fst v, snd v)"

definition add2 :: "vec2 \<Rightarrow> vec2 \<Rightarrow> vec2" where
  "add2 u v = (fst u + fst v, snd u + snd v)"

definition sub2 :: "vec2 \<Rightarrow> vec2 \<Rightarrow> vec2" where
  "sub2 u v = (fst u - fst v, snd u - snd v)"

definition half2 :: "vec2 \<Rightarrow> vec2" where
  "half2 u = (fst u / 2, snd u / 2)"

definition min2 :: "vec2 \<Rightarrow> vec2 \<Rightarrow> vec2" where
  "min2 u v = (min (fst u) (fst v), min (snd u) (snd v))"

definition max2 :: "vec2 \<Rightarrow> vec2 \<Rightarrow> vec2" where
  "max2 u v = (max (fst u) (fst v), max (snd u) (snd v))"

text \<open>\<^verbatim>\<open>torch.clamp(v, min=0)\<close> of reals; \<open>clamp_min32\<close> below is that of float32 values.\<close>

definition clamp_min0 :: "vec2 \<Rightarrow> vec2" where
  "clamp_min0 u = (max (fst u) 0, max (snd u) 0)"

text \<open>\<^verbatim>\<open>torch.tensor([W, H, W, H])\<close> for \<^verbatim>\<open>H, W = self.image_size\<close>\<close>

definition norm_factor :: "int \<times> int \<Rightarrow> box" where
  "norm_factor image_size_arg =
     (case image_size_arg of (H, W) \<Rightarrow> (real_of_int W, real_of_int H, real_of_int W, real_of_int H))"

definition div4 :: "box \<Rightarrow> box \<Rightarrow> box" where
  "div4 c f = (case (c, f) of ((a, b, c, d), (p, q, r, s)) \<Rightarrow> (a / p, b / q, c / r, d / s))"

definition mul4 :: "box \<Rightarrow> box \<Rightarrow> box" where
  "mul4 c f = (case (c, f) of ((a, b, c, d), (p, q, r, s)) \<Rightarrow> (a * p, b * q, c * r, d * s))"

subsection \<open>Objects and tensors in a heap\<close>

text \<open>
  A \<^verbatim>\<open>BoundingBoxes\<close> object holds a reference to its coordinate tensor and three
  values. Objects and tensors live in a heap and are named by their addresses, so that
  returning \<^verbatim>\<open>self\<close> is returning the address of the receiver, and an in-place
  operation on a tensor is seen by every object that refers to it. A new tensor or object
  takes the next free address.
\<close>

record BoundingBoxes =
  coordinates_ref :: nat
  format :: BoundingBoxFormat
  normalized :: bool
  image_size :: "int \<times> int"

record heap =
  tensors :: "box list list"
  objects :: "BoundingBoxes list"

text \<open>The property \<^verbatim>\<open>self.coordinates\<close>, read as a value.\<close>

definition coordinates :: "heap \<Rightarrow> nat \<Rightarrow> box list" where
  "coordinates h self = tensors h ! coordinates_ref (objects h ! self)"

text \<open>\<^verbatim>\<open>len(self)\<close>\<close>

definition len :: "heap \<Rightarrow> nat \<Rightarrow> nat" where
  "len h self = length (coordinates h self)"

text \<open>A torch operation that returns a new tensor.\<close>

definition new_tensor :: "heap \<Rightarrow> box list \<Rightarrow> heap \<times> nat" where
  "new_tensor h cs = (h\<lparr>tensors := tensors h @ [cs]\<rparr>, length (tensors h))"

text \<open>
  \<^verbatim>\<open>BoundingBoxes.__init__\<close> on a float tensor: \<^verbatim>\<open>torch.as_tensor(coordinates).float()\<close>
  is the tensor itself, and the new object refers to it.
\<close>

definition BoundingBoxes_init ::
  "heap \<Rightarrow> nat \<Rightarrow> BoundingBoxFormat \<Rightarrow> bool \<Rightarrow> int \<times> int \<Rightarrow> heap \<times> nat" where
  "BoundingBoxes_init h t fmt nrm isz =
     (h\<lparr>objects := objects h @
          [\<lparr>coordinates_ref = t, format = fmt, normalized = nrm, image_size = isz\<rparr>]\<rparr>,
      length (objects h))"

text \<open>\<^verbatim>\<open>self.__class__(coordinates, ...)\<close> on the new tensor of a torch operation.\<close>

definition new_boxes ::
  "heap \<Rightarrow> box list \<Rightarrow> BoundingBoxFormat \<Rightarrow> bool \<Rightarrow> int \<times> int \<Rightarrow> heap \<times> nat" where
  "new_boxes h cs fmt nrm isz =
     (case new_tensor h cs of (h', t) \<Rightarrow> BoundingBoxes_init h' t fmt nrm isz)"

subsection \<open>Conversion methods\<close>

definition to_xyxy :: "heap \<Rightarrow> nat \<Rightarrow> heap \<times> nat" where
  "to_xyxy h self =
     (case format (objects h ! self) of
        XYXY \<Rightarrow> (h, self)
      | XYWH \<Rightarrow>
          new_boxes h
            (map (\<lambda>c. let x1y1 = first2 c; x2y2 = add2 x1y1 (last2 c) in cat2 x1y1 x2y2)
               (coordinates h self))
            XYXY (normalized (objects h ! self)) (image_size (objects h ! self))
      | CXCYWH \<Rightarrow>
          new_boxes h
            (map (\<lambda>c. let x1y1 = sub2 (first2 c) (half2 (last2 c));
                          x2y2 = add2 x1y1 (last2 c)
                      in cat2 x1y1 x2y2)
               (coordinates h self))
            XYXY (normalized (objects h ! self)) (image_size (objects h ! self)))"

definition to_xywh :: "heap \<Rightarrow> nat \<Rightarrow> heap \<times> nat" where
  "to_xywh h self =
     (case format (objects h ! self) of
        XYXY \<Rightarrow>
          new_boxes h
            (map (\<lambda>c. let xy = first2 c; wh = sub2 (last2 c) xy in cat2 xy wh)
               (coordinates h self))
            XYWH (normalized (objects h ! self)) (image_size (objects h ! self))
      | XYWH \<Rightarrow> (h, self)
      | CXCYWH \<Rightarrow>
          new_boxes h
            (map (\<lambda>c. let xy = sub2 (first2 c) (half2 (last2 c)); wh = last2 c in cat2 xy wh)
               (coordinates h self))
            XYWH (normalized (objects h ! self)) (image_size (objects h ! self)))"

definition to_cxcywh :: "heap \<Rightarrow> nat \<Rightarrow> heap \<times> nat" where
  "to_cxcywh h self =
     (case format (objects h ! self) of
        XYXY \<Rightarrow>
          new_boxes h
            (map (\<lambda>c. let xy = first2 c; wh = sub2 (last2 c) xy in cat2 (add2 xy (half2 wh)) wh)
               (coordinates h self))
            CXCYWH (normalized (objects h ! self)) (image_size (objects h ! self))
      | XYWH \<Rightarrow>
          new_boxes h
            (map (\<lambda>c. let xy = first2 c; wh = last2 c in cat2 (add2 xy (half2 wh)) wh)
               (coordinates h self))
            CXCYWH (normalized (objects h ! self)) (image_size (objects h ! self))
      | CXCYWH \<Rightarrow> (h, self))"

text \<open>
  \<^verbatim>\<open>normalize\<close> and \<^verbatim>\<open>denormalize\<close>: the coordinates divided and multiplied by
  \<^verbatim>\<open>torch.tensor([W, H, W, H])\<close>. The source has no check of the image size; for a
  side that is zero the quotient of reals is zero, and \<open>normalize32\<close> below has the float32
  values.
\<close>

definition normalize_boxes :: "heap \<Rightarrow> nat \<Rightarrow> heap \<times> nat" where
  "normalize_boxes h self =
     (if normalized (objects h ! self) then (h, self)
      else new_boxes h
             (map (\<lambda>c. div4 c (norm_factor (image_size (objects h ! self))))
                (coordinates h self))
             (format (objects h ! self)) True (image_size (objects h ! self)))"

definition denormalize :: "heap \<Rightarrow> nat \<Rightarrow> heap \<times> nat" where
  "denormalize h self =
     (if \<not> normalized (objects h ! self) then (h, self)
      else new_boxes h
             (map (\<lambda>c. mul4 c (norm_factor (image_size (objects h ! self))))
                (coordinates h self))
             (format (objects h ! self)) False (image_size (objects h ! self)))"

text \<open>
  \<^verbatim>\<open>convert(format, normalized)\<close>: both arguments are optional; first the format,
  then the normalization.
\<close>

definition convert ::
  "heap \<Rightarrow> nat \<Rightarrow> BoundingBoxFormat option \<Rightarrow> bool option \<Rightarrow> heap \<times> nat" where
  "convert h self format_arg normalized_arg =
     (case (case format_arg of
              Some XYXY \<Rightarrow> to_xyxy h self
            | Some XYWH \<Rightarrow> to_xywh h self
            | Some CXCYWH \<Rightarrow> to_cxcywh h self
            | None \<Rightarrow> (h, self)) of
        (h', boxes) \<Rightarrow>
          (case normalized_arg of
             Some True \<Rightarrow> normalize_boxes h' boxes
           | Some False \<Rightarrow> denormalize h' boxes
           | None \<Rightarrow> (h', boxes)))"

definition convert_like :: "heap \<Rightarrow> nat \<Rightarrow> nat \<Rightarrow> heap \<times> nat" where
  "convert_like h self other =
     convert h self (Some (format (objects h ! other))) (Some (normalized (objects h ! other)))"

subsection \<open>Transform methods\<close>

text \<open>\<^verbatim>\<open>tensor.clone()\<close>\<close>

definition clone :: "heap \<Rightarrow> nat \<Rightarrow> heap \<times> nat" where
  "clone h t = new_tensor h (tensors h ! t)"

text \<open>An in-place operation on the tensor at address \<open>t\<close>, row by row.\<close>

definition update_rows :: "nat \<Rightarrow> (box \<Rightarrow> box) \<Rightarrow> heap \<Rightarrow> heap" where
  "update_rows t f h = h\<lparr>tensors := (tensors h)[t := map f (tensors h ! t)]\<rparr>"

text \<open>
  \<^verbatim>\<open>horizontal_flip\<close>. On the clone \<^verbatim>\<open>coords\<close>:
  \<^verbatim>\<open>coords[:, [2, 0]] = coords[:, [0, 2]].sub_(W).neg_()\<close> writes \<open>-(x1 - W)\<close> to column 2
  and \<open>-(x2 - W)\<close> to column 0;
  \<^verbatim>\<open>coords[:, 0].add_(coords[:, 2]).sub_(W).neg_()\<close> and \<^verbatim>\<open>coords[:, 0].sub_(W).neg_()\<close>
  work on column 0, which is a view of the clone.
\<close>

definition horizontal_flip :: "heap \<Rightarrow> nat \<Rightarrow> heap \<times> nat" where
  "horizontal_flip h self =
     (let W = (if normalized (objects h ! self) then 1
               else real_of_int (snd (image_size (objects h ! self))))
      in case clone h (coordinates_ref (objects h ! self)) of
           (h1, coords) \<Rightarrow>
             let h2 = (case format (objects h ! self) of
                         XYXY \<Rightarrow>
                           update_rows coords
                             (\<lambda>(x1, y1, x2, y2). (- (x2 - W), y1, - (x1 - W), y2)) h1
                       | XYWH \<Rightarrow>
                           update_rows coords
                             (\<lambda>(x, y, w, hh). (- ((x + w) - W), y, w, hh)) h1
                       | CXCYWH \<Rightarrow>
                           update_rows coords
                             (\<lambda>(cx, cy, w, hh). (- (cx - W), cy, w, hh)) h1)
             in BoundingBoxes_init h2 coords (format (objects h ! self))
                  (normalized (objects h ! self)) (image_size (objects h ! self)))"

subsection \<open>Operations\<close>

text \<open>
  The methods below return tensors of numbers, which are values here; the objects they
  create on the way cannot be reached afterwards.
\<close>

definition area :: "heap \<Rightarrow> nat \<Rightarrow> real list" where
  "area h self =
     (case format (objects h ! self) of
        XYXY \<Rightarrow> map (\<lambda>c. let wh = sub2 (last2 c) (first2 c) in fst wh * snd wh)
                  (coordinates h self)
      | XYWH \<Rightarrow> map (\<lambda>c. fst (last2 c) * snd (last2 c)) (coordinates h self)
      | CXCYWH \<Rightarrow> map (\<lambda>c. fst (last2 c) * snd (last2 c)) (coordinates h self))"

text \<open>
  \<^verbatim>\<open>_check_compatibility\<close>. The messages of the two errors are given without the
  numbers and sizes that the source appends to them.
\<close>

definition check_compatibility :: "heap \<Rightarrow> nat \<Rightarrow> nat \<Rightarrow> error + unit" where
  "check_compatibility h self other =
     (if len h self \<noteq> len h other then
        Inl (ValueError ''The number of bounding boxes must be the same'')
      else if image_size (objects h ! self) \<noteq> image_size (objects h ! other) then
        Inl (ValueError ''The bounding box image size must be the same'')
      else Inr ())"

definition union_boxes :: "heap \<Rightarrow> nat \<Rightarrow> nat \<Rightarrow> error + heap \<times> nat" where
  "union_boxes h self other =
     (case to_xyxy h self of
        (h1, boxes1) \<Rightarrow>
          (case convert_like h1 other boxes1 of
             (h2, boxes2) \<Rightarrow>
               (case check_compatibility h2 boxes1 boxes2 of
                  Inl e \<Rightarrow> Inl e
                | Inr _ \<Rightarrow>
                    Inr (new_boxes h2
                           (map2 (\<lambda>c1 c2.
                                let x1y1 = min2 (first2 c1) (first2 c2);
                                    x2y2 = max2 (last2 c1) (last2 c2)
                                in cat2 x1y1 x2y2)
                              (coordinates h2 boxes1) (coordinates h2 boxes2))
                           XYXY (normalized (objects h2 ! boxes1))
                           (image_size (objects h2 ! boxes1))))))"

definition intersection_boxes :: "heap \<Rightarrow> nat \<Rightarrow> nat \<Rightarrow> error + heap \<times> nat" where
  "intersection_boxes h self other =
     (case to_xyxy h self of
        (h1, boxes1) \<Rightarrow>
          (case convert_like h1 other boxes1 of
             (h2, boxes2) \<Rightarrow>
               (case check_compatibility h2 boxes1 boxes2 of
                  Inl e \<Rightarrow> Inl e
                | Inr _ \<Rightarrow>
                    Inr (new_boxes h2
                           (map2 (\<lambda>c1 c2.
                                let x1y1 = max2 (first2 c1) (first2 c2);
                                    x2y2 = min2 (last2 c1) (last2 c2);
                                    wh = clamp_min0 (sub2 x2y2 x1y1)
                                in cat2 x1y1 wh)
                              (coordinates h2 boxes1) (coordinates h2 boxes2))
                           XYWH (normalized (objects h2 ! boxes1))
                           (image_size (objects h2 ! boxes1))))))"

definition intersection_area :: "heap \<Rightarrow> nat \<Rightarrow> nat \<Rightarrow> error + real list" where
  "intersection_area h self other =
     (if normalized (objects h ! self) \<noteq> normalized (objects h ! other) then
        Inl (ValueError ''The bounding boxes must have the same normalization.'')
      else case intersection_boxes h self other of
             Inl e \<Rightarrow> Inl e
           | Inr (h', r) \<Rightarrow> Inr (area h' r))"

definition union_area :: "heap \<Rightarrow> nat \<Rightarrow> nat \<Rightarrow> error + real list" where
  "union_area h self other =
     (if normalized (objects h ! self) \<noteq> normalized (objects h ! other) then
        Inl (ValueError ''The bounding boxes must have the same normalization.'')
      else
        let area1 = area h self; area2 = area h other
        in case intersection_area h self other of
             Inl e \<Rightarrow> Inl e
           | Inr ia \<Rightarrow> Inr (map2 (\<lambda>s i. s - i) (map2 (\<lambda>a1 a2. a1 + a2) area1 area2) ia))"

text \<open>\<^verbatim>\<open>torch.finfo(torch.float32).eps\<close>: the coordinates are made \<^verbatim>\<open>float\<close> tensors.\<close>

definition eps :: real where
  "eps = 1 / 2 ^ 23"

definition iou :: "heap \<Rightarrow> nat \<Rightarrow> nat \<Rightarrow> error + real list" where
  "iou h self other =
     (case normalize_boxes h self of
        (h1, boxes1) \<Rightarrow>
          (case normalize_boxes h1 other of
             (h2, boxes2) \<Rightarrow>
               (case intersection_area h2 boxes1 boxes2 of
                  Inl e \<Rightarrow> Inl e
                | Inr ia \<Rightarrow>
                    (case union_area h2 boxes1 boxes2 of
                       Inl e \<Rightarrow> Inl e
                     | Inr ua \<Rightarrow> Inr (map2 (\<lambda>i u. i / (u + eps)) ia ua)))))"

subsection \<open>Float32 values\<close>

text \<open>
  The coordinate tensors are float32 tensors (\<^verbatim>\<open>.float()\<close> in the constructor), and
  exact arithmetic is what they compute on finite values, up to rounding, as long as no
  result overflows and no divisor is zero. Beyond that a float32 value is an infinity or
  \<open>nan\<close>. The operations below are those of IEEE 754 on a finite number, the two
  infinities and \<open>nan\<close>, as torch applies them to each element: a finite result of magnitude
  \<open>2\<^sup>1\<^sup>2\<^sup>8\<close> or more overflows to an infinity. The rounding of a smaller result and the sign
  of zero are not modelled; the zero of an image side is the positive one.
\<close>

datatype float32 = Num real | PInf | MInf | NaN

definition overflow32 :: "real \<Rightarrow> float32" where
  "overflow32 x = (if 2 ^ 128 \<le> x then PInf else if x \<le> - (2 ^ 128) then MInf else Num x)"

fun sub32 :: "float32 \<Rightarrow> float32 \<Rightarrow> float32" where
  "sub32 (Num a) (Num b) = overflow32 (a - b)"
| "sub32 (Num a) PInf = MInf"
| "sub32 (Num a) MInf = PInf"
| "sub32 PInf (Num b) = PInf"
| "sub32 PInf MInf = PInf"
| "sub32 MInf (Num b) = MInf"
| "sub32 MInf PInf = MInf"
| "sub32 _ _ = NaN"

fun mul32 :: "float32 \<Rightarrow> float32 \<Rightarrow> float32" where
  "mul32 (Num a) (Num b) = overflow32 (a * b)"
| "mul32 (Num a) PInf = (if a = 0 then NaN else if 0 < a then PInf else MInf)"
| "mul32 (Num a) MInf = (if a = 0 then NaN else if 0 < a then MInf else PInf)"
| "mul32 PInf (Num b) = (if b = 0 then NaN else if 0 < b then PInf else MInf)"
| "mul32 MInf (Num b) = (if b = 0 then NaN else if 0 < b then MInf else PInf)"
| "mul32 PInf PInf = PInf"
| "mul32 PInf MInf = MInf"
| "mul32 MInf PInf = MInf"
| "mul32 MInf MInf = PInf"
| "mul32 _ _ = NaN"

text \<open>The division by a number that is not negative, as the image sides are.\<close>

fun div32 :: "float32 \<Rightarrow> real \<Rightarrow> float32" where
  "div32 (Num a) b =
     (if b = 0 then (if a = 0 then NaN else if 0 < a then PInf else MInf)
      else overflow32 (a / b))"
| "div32 PInf b = PInf"
| "div32 MInf b = MInf"
| "div32 NaN b = NaN"

text \<open>\<^verbatim>\<open>torch.max\<close> and \<^verbatim>\<open>torch.min\<close> of two tensors give \<open>nan\<close> where either is.\<close>

fun max32 :: "float32 \<Rightarrow> float32 \<Rightarrow> float32" where
  "max32 NaN _ = NaN"
| "max32 _ NaN = NaN"
| "max32 PInf _ = PInf"
| "max32 _ PInf = PInf"
| "max32 MInf y = y"
| "max32 x MInf = x"
| "max32 (Num a) (Num b) = Num (max a b)"

fun min32 :: "float32 \<Rightarrow> float32 \<Rightarrow> float32" where
  "min32 NaN _ = NaN"
| "min32 _ NaN = NaN"
| "min32 MInf _ = MInf"
| "min32 _ MInf = MInf"
| "min32 PInf y = y"
| "min32 x PInf = x"
| "min32 (Num a) (Num b) = Num (min a b)"

text \<open>\<^verbatim>\<open>torch.clamp(x, min=0)\<close> keeps \<open>nan\<close>.\<close>

fun clamp_min32 :: "float32 \<Rightarrow> float32" where
  "clamp_min32 (Num a) = Num (max a 0)"
| "clamp_min32 PInf = PInf"
| "clamp_min32 MInf = Num 0"
| "clamp_min32 NaN = NaN"

text \<open>The comparison \<open>x \<ge> 0\<close>, which is false of \<open>nan\<close>.\<close>

fun nonneg32 :: "float32 \<Rightarrow> bool" where
  "nonneg32 (Num a) \<longleftrightarrow> 0 \<le> a"
| "nonneg32 PInf \<longleftrightarrow> True"
| "nonneg32 MInf \<longleftrightarrow> False"
| "nonneg32 NaN \<longleftrightarrow> False"

type_synonym box32 = "float32 \<times> float32 \<times> float32 \<times> float32"

text \<open>
  The row that \<^verbatim>\<open>intersection\<close> computes from a row of each operand, both in format
  XYXY and in the same normalization state, where \<^verbatim>\<open>to_xyxy\<close> and
  \<^verbatim>\<open>convert_like\<close> return the operands themselves:
  \<^verbatim>\<open>x1y1 = torch.max(...)\<close>, \<^verbatim>\<open>x2y2 = torch.min(...)\<close>,
  \<^verbatim>\<open>wh = torch.clamp(x2y2 - x1y1, min=0)\<close>, and the row is \<^verbatim>\<open>cat([x1y1, wh])\<close>,
  in format XYWH.
\<close>

definition intersection32 :: "box32 \<Rightarrow> box32 \<Rightarrow> box32" where
  "intersection32 c1 c2 =
     (case (c1, c2) of
        ((a1, b1, a2, b2), (p1, q1, p2, q2)) \<Rightarrow>
          let x1 = max32 a1 p1; y1 = max32 b1 q1;
              x2 = min32 a2 p2; y2 = min32 b2 q2
          in (x1, y1, clamp_min32 (sub32 x2 x1), clamp_min32 (sub32 y2 y1)))"

text \<open>The entry of \<^verbatim>\<open>area\<close> for a row in format XYWH: width times height.\<close>

definition area32 :: "box32 \<Rightarrow> float32" where
  "area32 c = (case c of (x, y, w, hh) \<Rightarrow> mul32 w hh)"

text \<open>
  The rows of \<^verbatim>\<open>normalize\<close> and \<^verbatim>\<open>denormalize\<close>: the row divided and multiplied by
  \<^verbatim>\<open>torch.tensor([W, H, W, H])\<close> for \<^verbatim>\<open>H, W = self.image_size\<close>.
\<close>

definition normalize32 :: "int \<times> int \<Rightarrow> box32 \<Rightarrow> box32" where
  "normalize32 image_size_arg c =
     (case (image_size_arg, c) of
        ((H, W), (a, b, c, d)) \<Rightarrow>
          (div32 a (real_of_int W), div32 b (real_of_int H),
           div32 c (real_of_int W), div32 d (real_of_int H)))"

definition denormalize32 :: "int \<times> int \<Rightarrow> box32 \<Rightarrow> box32" where
  "denormalize32 image_size_arg c =
     (case (image_size_arg, c) of
        ((H, W), (a, b, c, d)) \<Rightarrow>
          (mul32 a (Num (real_of_int W)), mul32 b (Num (real_of_int H)),
           mul32 c (Num (real_of_int W)), mul32 d (Num (real_of_int H))))"

section \<open>Attention layers of the decoder\<close>

text \<open>
  Feature tensors are nested lists of exact reals: a matrix is the list of its rows. The
  layers are used with dropout probability zero (the default, and evaluation mode), where
  dropout is the identity. The call of a linear layer raises when the rows of its input do
  not have the width of the layer, which the constructors of the graph attention fix; the
  other tensors are taken to have the shapes that the operations expect.
\<close>

type_synonym vec = "real list"

definition dot :: "vec \<Rightarrow> vec \<Rightarrow> real" where
  "dot u v = sum_list (map2 (\<lambda>a b. a * b) u v)"

text \<open>\<^verbatim>\<open>nn.Linear\<close>: the rows of \<open>weight\<close> are the output features.\<close>

record Linear =
  weight :: "real list list"
  bias :: "real list option"

definition linear :: "Linear \<Rightarrow> vec \<Rightarrow> vec" where
  "linear l x =
     (let y = map (\<lambda>row. dot row x) (weight l)
      in case bias l of None \<Rightarrow> y | Some b \<Rightarrow> map2 (\<lambda>a c. a + c) y b)"

text \<open>
  \<^verbatim>\<open>nn.Linear(in_features, out_features, bias)\<close>: a weight of shape
  \<open>(out_features, in_features)\<close> and, with \<^verbatim>\<open>bias\<close>, a bias of \<open>out_features\<close> entries.
  torch draws the values of the parameters at random, and training changes them; here they
  are an argument, the entry \<open>(r, c)\<close> of the weight and the entry \<open>r\<close> of the bias.
\<close>

type_synonym linear_values = "(nat \<Rightarrow> nat \<Rightarrow> real) \<times> (nat \<Rightarrow> real)"

definition new_Linear :: "linear_values \<Rightarrow> nat \<Rightarrow> nat \<Rightarrow> bool \<Rightarrow> Linear" where
  "new_Linear vals in_features out_features with_bias =
     \<lparr>weight = map (\<lambda>r. map (\<lambda>c. fst vals r c) [0..<in_features]) [0..<out_features],
      bias = (if with_bias then Some (map (snd vals) [0..<out_features]) else None)\<rparr>"


definition relu :: "vec \<Rightarrow> vec" where
  "relu x = map (\<lambda>a. max 0 a) x"




text \<open>\<^verbatim>\<open>x[..., off : off + n]\<close> of a vector.\<close>

definition slice :: "nat \<Rightarrow> nat \<Rightarrow> vec \<Rightarrow> vec" where
  "slice off n x = take n (drop off x)"

text \<open>The layers share the number of heads, the head dimension and the output projection.\<close>

record Attention =
  num_heads :: nat
  head_dim :: nat
  out_proj :: Linear

subsection \<open>Graphs and scatter operations\<close>

text \<open>
  Modelled from the spec: the graph structure (\<^verbatim>\<open>Graph\<close>, \<^verbatim>\<open>BatchedGraphs\<close>) is not among
  the sources. A batched graph has the node features of all its nodes, the two rows of
  indices of its sparse adjacency matrix, one pair per edge, and optional edge features;
  \<^verbatim>\<open>num_nodes\<close> is the total node count of the batch.
\<close>

record Graph =
  node_features :: "real list list"
  indices :: "nat list \<times> nat list"
  edge_features :: "real list list option"

definition num_nodes :: "Graph \<Rightarrow> nat" where
  "num_nodes g = length (node_features g)"


text \<open>
  Modelled from the spec: \<^verbatim>\<open>scatter_sum(src, index, dim=0, dim_output_size=n)\<close> is not
  among the sources. The spec has it sum the rows of each group into the slot of the group's
  index, with an explicit zero row for an index without rows, and with explicit control of
  the number of slots. A row of \<open>src\<close> has shape \<open>(a, b)\<close>, which torch reads from the
  tensor. Rows and indices are paired by position.
\<close>

definition scatter_sum ::
  "nat \<times> nat \<Rightarrow> real list list list \<Rightarrow> nat list \<Rightarrow> nat \<Rightarrow> real list list list" where
  "scatter_sum row_shape src index dim_output_size =
     (let m = min (length src) (length index)
      in map (\<lambda>slot.
                map (\<lambda>i. map (\<lambda>j. \<Sum>e \<leftarrow> filter (\<lambda>e. index ! e = slot) [0..<m].
                                      src ! e ! i ! j)
                            [0..<snd row_shape])
                  [0..<fst row_shape])
           [0..<dim_output_size])"

subsection \<open>GraphAttention\<close>

record GraphAttention = Attention +
  hidden_dim :: nat
  ni_proj :: Linear
  nj_proj :: Linear
  e_proj :: "Linear option"
  negative_slope :: real
  attn_proj :: "real list list"
  message_proj :: Linear

text \<open>The values of the parameters of a layer, one field for each parameter tensor.\<close>

record GraphAttention_values =
  ni_values :: linear_values
  nj_values :: linear_values
  e_values :: linear_values
  attn_values :: "nat \<Rightarrow> nat \<Rightarrow> real"
  message_values :: linear_values
  out_values :: linear_values


text \<open>
  \<^verbatim>\<open>GraphAttention.__init__\<close> of \<^verbatim>\<open>deepsight.models.gahoi\<close>. Here
  \<^verbatim>\<open>hidden_dim\<close> is what the heads divide, the head dimension is
  \<^verbatim>\<open>hidden_dim // num_heads\<close>, and the projections of the nodes and of the edges have
  \<^verbatim>\<open>hidden_dim\<close> outputs. The input width of the message projection is written
  \<^verbatim>\<open>node_dim + edge_dim if edge_dim is not None else 0\<close>, which Python reads as
  \<^verbatim>\<open>(node_dim + edge_dim) if edge_dim is not None else 0\<close>: zero without an
  \<^verbatim>\<open>edge_dim\<close>. The object has no attribute \<^verbatim>\<open>hidden_dim\<close>; the field of the record
  holds the value of the argument.
\<close>

definition models_GraphAttention_init ::
  "GraphAttention_values \<Rightarrow> nat \<Rightarrow> nat option \<Rightarrow> nat option \<Rightarrow> bool \<Rightarrow> bool \<Rightarrow> nat \<Rightarrow> real
     \<Rightarrow> error + GraphAttention" where
  "models_GraphAttention_init vals node_dim edge_dim hidden_dim_arg share_weights bias_arg
     heads slope =
     (let hidden = (case hidden_dim_arg of None \<Rightarrow> node_dim | Some d \<Rightarrow> d)
      in if heads = 0 then Inl (ZeroDivisionError ''integer modulo by zero'')
         else if hidden mod heads \<noteq> 0 then
           Inl (ValueError ''hidden_dim must be divisible by num_heads'')
         else
           let ni = new_Linear (ni_values vals) node_dim hidden bias_arg
           in Inr \<lparr>num_heads = heads, head_dim = hidden div heads,
                   out_proj = new_Linear (out_values vals) node_dim node_dim bias_arg,
                   hidden_dim = hidden,
                   ni_proj = ni,
                   nj_proj = (if share_weights then ni
                              else new_Linear (nj_values vals) node_dim hidden bias_arg),
                   e_proj = (case edge_dim of
                               None \<Rightarrow> None
                             | Some ed \<Rightarrow> Some (new_Linear (e_values vals) ed hidden bias_arg)),
                   negative_slope = slope,
                   attn_proj = map (\<lambda>h. map (\<lambda>k. attn_values vals h k) [0..<hidden div heads])
                                 [0..<heads],
                   message_proj =
                     new_Linear (message_values vals)
                       (case edge_dim of Some ed \<Rightarrow> node_dim + ed | None \<Rightarrow> 0)
                       node_dim bias_arg\<rparr>)"









subsection \<open>CrossAttention\<close>

record CrossAttention = Attention +
  q_proj :: Linear
  kv_proj :: Linear
  cpb_mlp_0 :: Linear
  cpb_mlp_2 :: Linear

text \<open>\<^verbatim>\<open>self.cpb_mlp\<close>: linear, ReLU, linear.\<close>

definition cpb_mlp :: "CrossAttention \<Rightarrow> vec \<Rightarrow> vec" where
  "cpb_mlp ca x = linear (cpb_mlp_2 ca) (relu (linear (cpb_mlp_0 ca) x))"

text \<open>
  The queries of head \<open>h\<close>, \<^verbatim>\<open>q.view(B, Q, H, D).transpose(1, 2)\<close>, and its keys and
  values, \<^verbatim>\<open>kv.view(B, K, 2, H, D).permute(2, 0, 3, 1, 4).unbind(dim=0)\<close>, for one item of
  the batch.
\<close>

definition head_q :: "CrossAttention \<Rightarrow> real list list \<Rightarrow> nat \<Rightarrow> real list list" where
  "head_q ca nodes h =
     map (\<lambda>x. slice (h * head_dim ca) (head_dim ca) (linear (q_proj ca) x)) nodes"

definition head_k :: "CrossAttention \<Rightarrow> real list list \<Rightarrow> nat \<Rightarrow> real list list" where
  "head_k ca patches h =
     map (\<lambda>x. slice (h * head_dim ca) (head_dim ca) (linear (kv_proj ca) x)) patches"

definition head_v :: "CrossAttention \<Rightarrow> real list list \<Rightarrow> nat \<Rightarrow> real list list" where
  "head_v ca patches h =
     map (\<lambda>x. slice (num_heads ca * head_dim ca + h * head_dim ca) (head_dim ca)
                 (linear (kv_proj ca) x)) patches"

text \<open>
  A logit is a real or minus infinity. Adding to minus infinity gives minus infinity, and
  its exponential is zero.
\<close>

datatype logit = NegInf | Fin real

fun logit_add :: "real \<Rightarrow> logit \<Rightarrow> logit" where
  "logit_add x NegInf = NegInf"
| "logit_add x (Fin y) = Fin (x + y)"

fun logit_exp :: "logit \<Rightarrow> real" where
  "logit_exp NegInf = 0"
| "logit_exp (Fin x) = exp x"

text \<open>
  The softmax of a row of logits inside \<^verbatim>\<open>F.scaled_dot_product_attention\<close>. A row
  of minus infinities only, whose exponentials sum to zero, gets the weight zero for every
  key: torch gives such a row a zero output.
\<close>

definition softmax_logits :: "logit list \<Rightarrow> real list" where
  "softmax_logits ls =
     (if list_all (\<lambda>l. l = NegInf) ls then map (\<lambda>l. 0) ls
      else map (\<lambda>l. logit_exp l / sum_list (map logit_exp ls)) ls)"


text \<open>
  \<^verbatim>\<open>F.scaled_dot_product_attention(q, k, v, attn_mask)\<close> of torch with a float mask, for
  one item and one head: the logits are \<open>q k\<^sup>T / sqrt d + attn_mask\<close> for the size \<open>d\<close> of a
  query, the weights their softmax along the keys, the output the weighted sum of the
  values.
\<close>

definition sdpa_logits ::
  "real list list \<Rightarrow> real list list \<Rightarrow> logit list list \<Rightarrow> logit list list" where
  "sdpa_logits q k attn_mask =
     map2 (\<lambda>qi mask_row.
             map2 (\<lambda>kj m. logit_add (dot qi kj * (1 / sqrt (real (length qi)))) m) k mask_row)
       q attn_mask"

definition sdpa_weights ::
  "real list list \<Rightarrow> real list list \<Rightarrow> logit list list \<Rightarrow> real list list" where
  "sdpa_weights q k attn_mask = map softmax_logits (sdpa_logits q k attn_mask)"

definition weighted_sum :: "real list \<Rightarrow> real list list \<Rightarrow> nat \<Rightarrow> vec" where
  "weighted_sum w v d = map (\<lambda>c. dot w (map (\<lambda>vj. vj ! c) v)) [0..<d]"

definition scaled_dot_product_attention ::
  "real list list \<Rightarrow> real list list \<Rightarrow> real list list \<Rightarrow> logit list list
     \<Rightarrow> vec list" where
  "scaled_dot_product_attention q k v attn_mask =
     map2 (\<lambda>qi w. weighted_sum w v (length qi)) q (sdpa_weights q k attn_mask)"

text \<open>
  \<^verbatim>\<open>CrossAttention.forward\<close> of \<^verbatim>\<open>deepsight.tasks.hoic.models.gahoi\<close>, up to the output
  of the attention, for one item of the batch: \<open>nodes\<close> are its \<open>Q\<close> node features,
  \<open>patches\<close> and \<open>key_mask\<close> the \<open>K\<close> rows of \<^verbatim>\<open>images.data\<close> and of \<^verbatim>\<open>images.mask\<close>,
  and \<open>relative_distances\<close> has shape \<open>(Q, K, 2)\<close>.
  \<^verbatim>\<open>cpb.masked_fill_(mask, -torch.inf)\<close> is the float mask of the attention.
\<close>

definition tasks_att_mask ::
  "CrossAttention \<Rightarrow> bool list \<Rightarrow> real list list list \<Rightarrow> nat \<Rightarrow> logit list list" where
  "tasks_att_mask ca key_mask relative_distances h =
     map (\<lambda>row. map2 (\<lambda>d m. if m then NegInf else Fin (cpb_mlp ca d ! h)) row key_mask)
       relative_distances"



definition tasks_CrossAttention_attention ::
  "CrossAttention \<Rightarrow> real list list \<Rightarrow> real list list \<Rightarrow> bool list \<Rightarrow> real list list list
     \<Rightarrow> vec list list" where
  "tasks_CrossAttention_attention ca nodes patches key_mask relative_distances =
     map (\<lambda>h. scaled_dot_product_attention (head_q ca nodes h) (head_k ca patches h)
                 (head_v ca patches h) (tasks_att_mask ca key_mask relative_distances h))
       [0..<num_heads ca]"




section \<open>Notions used to state and prove the properties\<close>

text \<open>An address that names an object of the heap whose coordinate tensor is in the heap.\<close>

definition valid :: "heap \<Rightarrow> nat \<Rightarrow> bool" where
  "valid h r \<longleftrightarrow> r < length (objects h) \<and> coordinates_ref (objects h ! r) < length (tensors h)"

text \<open>The later heap keeps every object of the earlier one, with the same coordinates.\<close>

definition extends :: "heap \<Rightarrow> heap \<Rightarrow> bool" where
  "extends h h' \<longleftrightarrow>
     (\<forall>r. valid h r \<longrightarrow>
        valid h' r \<and> objects h' ! r = objects h ! r \<and> coordinates h' r = coordinates h r)"

text \<open>One row in format \<open>f\<close>, written in format \<open>g\<close>.\<close>

definition row_as :: "BoundingBoxFormat \<Rightarrow> BoundingBoxFormat \<Rightarrow> box \<Rightarrow> box" where
  "row_as f g c =
     (case (f, g) of
        (XYWH, XYXY) \<Rightarrow> (case c of (x, y, w, hh) \<Rightarrow> (x, y, x + w, y + hh))
      | (CXCYWH, XYXY) \<Rightarrow>
          (case c of (cx, cy, w, hh) \<Rightarrow> (cx - w / 2, cy - hh / 2, cx - w / 2 + w, cy - hh / 2 + hh))
      | (XYXY, XYWH) \<Rightarrow> (case c of (x1, y1, x2, y2) \<Rightarrow> (x1, y1, x2 - x1, y2 - y1))
      | (CXCYWH, XYWH) \<Rightarrow> (case c of (cx, cy, w, hh) \<Rightarrow> (cx - w / 2, cy - hh / 2, w, hh))
      | (XYXY, CXCYWH) \<Rightarrow>
          (case c of (x1, y1, x2, y2) \<Rightarrow>
             (x1 + (x2 - x1) / 2, y1 + (y2 - y1) / 2, x2 - x1, y2 - y1))
      | (XYWH, CXCYWH) \<Rightarrow> (case c of (x, y, w, hh) \<Rightarrow> (x + w / 2, y + hh / 2, w, hh))
      | _ \<Rightarrow> c)"

text \<open>One row with normalization state \<open>m\<close>, written with normalization state \<open>n\<close>.\<close>

definition row_scaled :: "bool \<Rightarrow> bool \<Rightarrow> int \<times> int \<Rightarrow> box \<Rightarrow> box" where
  "row_scaled m n isz c =
     (if m = n then c else if n then div4 c (norm_factor isz) else mul4 c (norm_factor isz))"

text \<open>
  The result of a method called in heap \<open>h\<close>: a valid object with the given coordinates,
  format, normalization state and image size, in a heap that extends \<open>h\<close>.
\<close>

definition result_is ::
  "heap \<Rightarrow> heap \<times> nat \<Rightarrow> box list \<Rightarrow> BoundingBoxFormat \<Rightarrow> bool \<Rightarrow> int \<times> int \<Rightarrow> bool" where
  "result_is h res cs fmt nrm isz \<longleftrightarrow>
     (case res of (h', r) \<Rightarrow>
        valid h' r \<and> extends h h' \<and> coordinates h' r = cs \<and> format (objects h' ! r) = fmt
        \<and> normalized (objects h' ! r) = nrm \<and> image_size (objects h' ! r) = isz)"

text \<open>\<^verbatim>\<open>b.convert(format2, normalized2).convert(b.format, b.normalized)\<close>\<close>

definition round_trip :: "heap \<Rightarrow> nat \<Rightarrow> BoundingBoxFormat \<Rightarrow> bool \<Rightarrow> heap \<times> nat" where
  "round_trip h b format2 normalized2 =
     (case convert h b (Some format2) (Some normalized2) of
        (h1, r1) \<Rightarrow>
          convert h1 r1 (Some (format (objects h ! b))) (Some (normalized (objects h ! b))))"

text \<open>\<^verbatim>\<open>b.horizontal_flip().horizontal_flip()\<close>\<close>

definition flip_twice :: "heap \<Rightarrow> nat \<Rightarrow> heap \<times> nat" where
  "flip_twice h b = (case horizontal_flip h b of (h1, r1) \<Rightarrow> horizontal_flip h1 r1)"

text \<open>The horizontal flip of one row, for the width \<open>W\<close>.\<close>

definition flip_row :: "BoundingBoxFormat \<Rightarrow> real \<Rightarrow> box \<Rightarrow> box" where
  "flip_row f W c =
     (case (f, c) of
        (XYXY, (x1, y1, x2, y2)) \<Rightarrow> (W - x2, y1, W - x1, y2)
      | (XYWH, (x, y, w, hh)) \<Rightarrow> (W - (x + w), y, w, hh)
      | (CXCYWH, (cx, cy, w, hh)) \<Rightarrow> (W - cx, cy, w, hh))"


text \<open>
  A graph that a layer built for the node dimension \<open>node_dim\<close> and the edge dimension
  \<open>edge_dim\<close> expects: the node features have the width \<open>node_dim\<close>, the two rows of
  indices have one entry per edge, each the index of a node, and there are edge features
  exactly when the layer has an edge dimension, one row of that width per edge.
\<close>

definition graph_for :: "nat \<Rightarrow> nat option \<Rightarrow> Graph \<Rightarrow> bool" where
  "graph_for node_dim edge_dim graphs \<longleftrightarrow>
     (\<forall>x \<in> set (node_features graphs). length x = node_dim)
     \<and> length (fst (indices graphs)) = length (snd (indices graphs))
     \<and> (\<forall>i \<in> set (fst (indices graphs)). i < num_nodes graphs)
     \<and> (\<forall>j \<in> set (snd (indices graphs)). j < num_nodes graphs)
     \<and> (case edge_dim of
          None \<Rightarrow> edge_features graphs = None
        | Some ed \<Rightarrow>
            (case edge_features graphs of
               None \<Rightarrow> False
             | Some ef \<Rightarrow>
                 length ef = length (fst (indices graphs)) \<and> (\<forall>x \<in> set ef. length x = ed)))"

text \<open>
  Parameter values for a graph-attention layer: the projections of the attention are zero,
  the message projection has the weights one and the bias zero, and the output projection
  the weights one and the bias five. For the node dimension one and one head, without an
  edge dimension, the constructor of \<^verbatim>\<open>deepsight.tasks.hoic.models.gahoi\<close> builds the
  layer \<open>ga0\<close> from them, whose output projection is \<open>x \<mapsto> x + 5\<close>, and the constructor of
  \<^verbatim>\<open>deepsight.models.gahoi\<close> the layer \<open>ga1\<close>, whose message projection has the input
  width zero. The graph \<open>g0\<close> has three nodes and the edges \<open>(0, 1)\<close> and \<open>(0, 2)\<close>: no
  edge has the index 1 or 2.
\<close>

definition ga_values0 :: GraphAttention_values where
  "ga_values0 =
     \<lparr>ni_values = (\<lambda>r c. 0, \<lambda>r. 0), nj_values = (\<lambda>r c. 0, \<lambda>r. 0),
      e_values = (\<lambda>r c. 0, \<lambda>r. 0), attn_values = (\<lambda>h k. 0),
      message_values = (\<lambda>r c. 1, \<lambda>r. 0), out_values = (\<lambda>r c. 1, \<lambda>r. 5)\<rparr>"


definition ga1 :: GraphAttention where
  "ga1 = \<lparr>num_heads = 1, head_dim = 1,
          out_proj = \<lparr>weight = [[1]], bias = Some [5]\<rparr>,
          hidden_dim = 1,
          ni_proj = \<lparr>weight = [[0]], bias = Some [0]\<rparr>,
          nj_proj = \<lparr>weight = [[0]], bias = Some [0]\<rparr>,
          e_proj = None, negative_slope = 1 / 5, attn_proj = [[0]],
          message_proj = \<lparr>weight = [[]], bias = Some [0]\<rparr>\<rparr>"


definition g2 :: Graph where
  "g2 = \<lparr>node_features = [[], []], indices = ([0], [1]), edge_features = None\<rparr>"


section \<open>Properties of BatchedImages\<close>

subsection \<open>The loops of \<^verbatim>\<open>batch\<close> and of the mask\<close>

lemma shape_copy_image [simp]: "shape (copy_image i img d) = shape d"
  by (simp add: copy_image_def)

lemma dtype_copy_image [simp]: "dtype (copy_image i img d) = dtype d"
  by (simp add: copy_image_def)

lemma device_copy_image [simp]: "device (copy_image i img d) = device d"
  by (simp add: copy_image_def)

lemma elem_copy_image:
  "elem (copy_image i img d) [b, c, y, x] =
     (if b = i \<and> y < min (shape img ! 1) (shape d ! 2) \<and> x < min (shape img ! 2) (shape d ! 3)
      then elem img [c, y, x] else elem d [b, c, y, x])"
  by (simp add: copy_image_def)

lemma shape_fold_copy [simp]:
  "shape (fold (\<lambda>(i, img). copy_image i img) (enumerate n imgs) d) = shape d"
  by (induction imgs arbitrary: n d) simp_all

lemma dtype_fold_copy [simp]:
  "dtype (fold (\<lambda>(i, img). copy_image i img) (enumerate n imgs) d) = dtype d"
  by (induction imgs arbitrary: n d) simp_all

lemma device_fold_copy [simp]:
  "device (fold (\<lambda>(i, img). copy_image i img) (enumerate n imgs) d) = device d"
  by (induction imgs arbitrary: n d) simp_all

lemma elem_fold_copy:
  "elem (fold (\<lambda>(i, img). copy_image i img) (enumerate n imgs) d) [b, c, y, x] =
     (if n \<le> b \<and> b < n + length imgs
         \<and> y < min (shape (imgs ! (b - n)) ! 1) (shape d ! 2)
         \<and> x < min (shape (imgs ! (b - n)) ! 2) (shape d ! 3)
      then elem (imgs ! (b - n)) [c, y, x] else elem d [b, c, y, x])"
proof (induction imgs arbitrary: n d)
  case Nil
  then show ?case by simp
next
  case (Cons img imgs)
  show ?case
  proof (cases "b = n")
    case True
    with Cons.IH [of "Suc n" "copy_image n img d"] show ?thesis
      by (simp add: elem_copy_image)
  next
    case False
    with Cons.IH [of "Suc n" "copy_image n img d"] show ?thesis
      by (auto simp add: elem_copy_image Suc_diff_le nth_Cons')
  qed
qed

lemma shape_clear_region [simp]: "shape (clear_region i sz m) = shape m"
  by (simp add: clear_region_def)

lemma elem_clear_region:
  "elem (clear_region i sz m) [b, y, x] =
     (if b = i \<and> y < slice_stop (shape m ! 1) (fst sz) \<and> x < slice_stop (shape m ! 2) (snd sz)
      then False else elem m [b, y, x])"
  by (simp add: clear_region_def)

lemma shape_fold_clear [simp]:
  "shape (fold (\<lambda>(i, sz). clear_region i sz) (enumerate n sizes) m) = shape m"
  by (induction sizes arbitrary: n m) simp_all

lemma elem_fold_clear:
  "elem (fold (\<lambda>(i, sz). clear_region i sz) (enumerate n sizes) m) [b, y, x] =
     (if n \<le> b \<and> b < n + length sizes
         \<and> y < slice_stop (shape m ! 1) (fst (sizes ! (b - n)))
         \<and> x < slice_stop (shape m ! 2) (snd (sizes ! (b - n)))
      then False else elem m [b, y, x])"
proof (induction sizes arbitrary: n m)
  case Nil
  then show ?case by auto
next
  case (Cons sz sizes)
  show ?case
  proof (cases "b = n")
    case True
    with Cons.IH [of "Suc n" "clear_region n sz m"] show ?thesis
      by (simp add: elem_clear_region)
  next
    case False
    with Cons.IH [of "Suc n" "clear_region n sz m"] show ?thesis
      by (auto simp add: elem_clear_region Suc_diff_le nth_Cons')
  qed
qed

lemma shape_compute_mask [simp]:
  "shape (compute_mask_from_sizes sizes H W dev) = [length sizes, H, W]"
  by (simp add: compute_mask_from_sizes_def full_def)

lemma elem_compute_mask:
  "elem (compute_mask_from_sizes sizes H W dev) [b, y, x] =
     (\<not> (b < length sizes \<and> y < slice_stop H (fst (sizes ! b)) \<and> x < slice_stop W (snd (sizes ! b))))"
  by (simp add: compute_mask_from_sizes_def elem_fold_clear full_def)

lemma py_max_Max:
  assumes "xs \<noteq> []"
  shows "py_max xs = Max (set xs)"
proof (cases xs)
  case Nil
  with assms show ?thesis by simp
next
  case (Cons a list)
  have "fold max list a = Max (set (a # list))"
    by (rule Max.set_eq_fold [symmetric])
  with Cons show ?thesis
    by (simp add: py_max_def)
qed

lemma if_chain5:
  "(if a then Inl e1 else if b then Inl e2 else if c then Inl e3
    else if d then Inl e4 else if e then Inl e5 else Inr u) = Inr u
   \<longleftrightarrow> \<not> a \<and> \<not> b \<and> \<not> c \<and> \<not> d \<and> \<not> e"
  by simp

lemma check_images_Inr_iff:
  "check_images images = Inr () \<longleftrightarrow>
     images \<noteq> [] \<and> (\<forall>img \<in> set images. ndim img = 3)
       \<and> (\<forall>img \<in> set images. shape img ! 0 = shape (images ! 0) ! 0)
       \<and> (\<forall>img \<in> set images. dtype img = dtype (images ! 0))
       \<and> (\<forall>img \<in> set images. device img = device (images ! 0))"
  unfolding check_images_def if_chain5 length_0_conv by blast

lemma check_images_cases:
  "check_images images = Inr () \<or> (\<exists>e. check_images images = Inl e)"
  by (cases "check_images images") simp_all


lemma shape_full [simp]: "shape (full shp v dt dev) = shp"
  by (simp add: full_def)

lemma dtype_full [simp]: "dtype (full shp v dt dev) = dt"
  by (simp add: full_def)

lemma device_full [simp]: "device (full shp v dt dev) = dev"
  by (simp add: full_def)

lemma elem_full [simp]: "elem (full shp v dt dev) idx = v"
  by (simp add: full_def)

lemma batch_Inr:
  assumes "check_images images = Inr ()"
    and "scalar_to (dtype (images ! 0)) pv = Inr v"
  shows "batch images pv =
     Inr \<lparr>data = fold (\<lambda>(i, img). copy_image i img) (enumerate 0 images)
                   (full [length images, shape (images ! 0) ! 0,
                          nat (py_max (map (\<lambda>img. int (shape img ! 1)) images)),
                          nat (py_max (map (\<lambda>img. int (shape img ! 2)) images))]
                      v (dtype (images ! 0)) (device (images ! 0))),
          image_sizes = map (\<lambda>img. (int (shape img ! 1), int (shape img ! 2))) images,
          mask = compute_mask_from_sizes
                   (map (\<lambda>img. (int (shape img ! 1), int (shape img ! 2))) images)
                   (nat (py_max (map (\<lambda>img. int (shape img ! 1)) images)))
                   (nat (py_max (map (\<lambda>img. int (shape img ! 2)) images)))
                   (device (images ! 0))\<rparr>"
  using assms
  by (simp add: batch_def BatchedImages_init_def Let_def comp_def)

lemma batch_Inl:
  assumes "check_images images = Inr ()"
    and "scalar_to (dtype (images ! 0)) pv = Inl e"
  shows "batch images pv = Inl e"
  using assms by (simp add: batch_def Let_def)

lemma batch_isl_iff:
  "isl (batch images pv) \<longleftrightarrow>
     check_images images \<noteq> Inr () \<or> isl (scalar_to (dtype (images ! 0)) pv)"
proof (cases "check_images images = Inr ()")
  case True
  then show ?thesis
    by (cases "scalar_to (dtype (images ! 0)) pv") (simp_all add: batch_Inl batch_Inr)
next
  case False
  with check_images_cases [of images] obtain e where "check_images images = Inl e" by auto
  then show ?thesis by (simp add: batch_def)
qed

text \<open>
  The conversion of the fill value keeps a number that the dtype holds: a float between the
  bounds of float32, or an integer in the range of the integer dtype.
\<close>

lemma scalar_to_float:
  "scalar_to Float64 (PyFloat x) = Inr x"
  "- float32_max \<le> x \<Longrightarrow> x \<le> float32_max \<Longrightarrow> scalar_to Float32 (PyFloat x) = Inr x"
  by (simp_all add: scalar_to_def)

lemma scalar_to_int:
  "0 \<le> i \<Longrightarrow> i \<le> 255 \<Longrightarrow> scalar_to UInt8 (PyInt i) = Inr (real_of_int i)"
  "- (2 ^ 63) \<le> i \<Longrightarrow> i < 2 ^ 63 \<Longrightarrow> scalar_to Int64 (PyInt i) = Inr (real_of_int i)"
  by (simp_all add: scalar_to_def)

lemma scalar_to_uint8_overflow:
  "isl (scalar_to UInt8 (PyInt i)) \<longleftrightarrow> i < - 255 \<or> 255 < i"
  "isl (scalar_to UInt8 (PyFloat x)) \<longleftrightarrow> x < 0 \<or> 255 < x"
  by (auto simp add: scalar_to_def overflow_def)

lemma nat_py_max_int:
  assumes "images \<noteq> []"
  shows "nat (py_max (map (\<lambda>img. int (f img)) images)) = Max (f ` set images)"
proof -
  have "py_max (map (\<lambda>img. int (f img)) images) = Max (set (map (\<lambda>img. int (f img)) images))"
    using assms by (simp add: py_max_Max)
  also have "set (map (\<lambda>img. int (f img)) images) = int ` (f ` set images)"
    by (simp add: image_comp comp_def)
  also have "Max (int ` (f ` set images)) = int (Max (f ` set images))"
    using assms by (intro mono_Max_commute [symmetric]) (auto simp add: mono_def)
  finally show ?thesis by simp
qed

lemma disagree_iff:
  assumes "images \<noteq> []"
  shows "(\<exists>a \<in> set images. \<exists>b \<in> set images. f a \<noteq> f b) \<longleftrightarrow>
         (\<exists>img \<in> set images. f img \<noteq> f (images ! 0))"
proof
  assume "\<exists>a \<in> set images. \<exists>b \<in> set images. f a \<noteq> f b"
  then obtain a b where ab: "a \<in> set images" "b \<in> set images" "f a \<noteq> f b" by blast
  show "\<exists>img \<in> set images. f img \<noteq> f (images ! 0)"
  proof (cases "f a = f (images ! 0)")
    case True
    with ab have "f b \<noteq> f (images ! 0)" by simp
    with ab show ?thesis by blast
  next
    case False
    with ab show ?thesis by blast
  qed
next
  assume "\<exists>img \<in> set images. f img \<noteq> f (images ! 0)"
  moreover from assms have "images ! 0 \<in> set images" by simp
  ultimately show "\<exists>a \<in> set images. \<exists>b \<in> set images. f a \<noteq> f b" by blast
qed

lemma check_images_fails_iff:
  "check_images images \<noteq> Inr () \<longleftrightarrow>
     images = [] \<or> (\<exists>img \<in> set images. ndim img \<noteq> 3) \<or>
     (\<exists>a \<in> set images. \<exists>b \<in> set images.
        shape a ! 0 \<noteq> shape b ! 0 \<or> dtype a \<noteq> dtype b \<or> device a \<noteq> device b)"
proof (cases "images = []")
  case True
  then show ?thesis by (simp add: check_images_Inr_iff)
next
  case False
  have "(\<exists>a \<in> set images. \<exists>b \<in> set images.
           shape a ! 0 \<noteq> shape b ! 0 \<or> dtype a \<noteq> dtype b \<or> device a \<noteq> device b) \<longleftrightarrow>
        (\<exists>a \<in> set images. \<exists>b \<in> set images. shape a ! 0 \<noteq> shape b ! 0) \<or>
        (\<exists>a \<in> set images. \<exists>b \<in> set images. dtype a \<noteq> dtype b) \<or>
        (\<exists>a \<in> set images. \<exists>b \<in> set images. device a \<noteq> device b)"
    by blast
  also have "\<dots> \<longleftrightarrow>
        (\<exists>img \<in> set images. shape img ! 0 \<noteq> shape (images ! 0) ! 0) \<or>
        (\<exists>img \<in> set images. dtype img \<noteq> dtype (images ! 0)) \<or>
        (\<exists>img \<in> set images. device img \<noteq> device (images ! 0))"
    by (simp only: disagree_iff [OF False, of "\<lambda>t. shape t ! 0"]
          disagree_iff [OF False, of dtype] disagree_iff [OF False, of device])
  finally show ?thesis
    using False unfolding check_images_Inr_iff by blast
qed

lemma max_dim_ge:
  assumes "i < length images"
  shows "f (images ! i) \<le> Max (f ` set images)"
  using assms by (intro Max_ge) auto

subsection \<open>Claims\<close>

text \<open>
  C1. Constructing \<^verbatim>\<open>BatchedImages\<close> from data and a mask only should store sizes that
  agree with the mask: the sizes computed from the mask of the images of sizes \<open>4\<times>5\<close> and
  \<open>6\<times>3\<close>, padded to \<open>6\<times>5\<close>, should be \<open>(4, 5)\<close> and \<open>(6, 3)\<close>.
  The code subtracts the number of all padded pixels from the padded height and from the
  padded width, and stores \<open>(-4, -5)\<close> and \<open>(-6, -7)\<close>.
\<close>

theorem compute_sizes_from_mask_disagrees:
  "map_sum id image_sizes
     (BatchedImages_init (full [2, 3, 6, 5] 0 Float32 CPU) None
        (Some (compute_mask_from_sizes [(4, 5), (6, 3)] 6 5 CPU)) True)
   = Inr [(- 4, - 5), (- 6, - 7)]"
  by code_simp

text \<open>
  C4. \<^verbatim>\<open>BatchedImages.batch(images, padding_value)\<close> raises exactly when the list is
  empty, or some image is not three-dimensional, or two images differ in channel count,
  dtype or device, or the padding value cannot be converted to the dtype of the images:
  \<^verbatim>\<open>torch.full\<close> then raises. Otherwise the data tensor has shape
  \<open>(B, C, max height, max width)\<close>, holds each image in the top-left corner of its item
  and the padding value, as converted to the dtype, elsewhere, and the mask is \<open>False\<close>
  exactly on each item's copied region.
  The third theorem below has two \<^verbatim>\<open>uint8\<close> images that pass the five checks: with the
  padding value 300 \<^verbatim>\<open>batch\<close> raises, with \<open>-1\<close> the canvas holds 255, and with
  \<open>0.5\<close> it holds 0.
\<close>

theorem batch_contract:
  "(isl (batch images pv) \<longleftrightarrow>
      images = [] \<or> (\<exists>img \<in> set images. ndim img \<noteq> 3) \<or>
      (\<exists>a \<in> set images. \<exists>b \<in> set images.
         shape a ! 0 \<noteq> shape b ! 0 \<or> dtype a \<noteq> dtype b \<or> device a \<noteq> device b) \<or>
      isl (scalar_to (dtype (images ! 0)) pv))
   \<and> (\<not> isl (batch images pv) \<longrightarrow>
        (let r = projr (batch images pv);
             v = projr (scalar_to (dtype (images ! 0)) pv);
             H = Max ((\<lambda>img. shape img ! 1) ` set images);
             W = Max ((\<lambda>img. shape img ! 2) ` set images)
         in shape (data r) = [length images, shape (images ! 0) ! 0, H, W]
          \<and> dtype (data r) = dtype (images ! 0)
          \<and> device (data r) = device (images ! 0)
          \<and> shape (mask r) = [length images, H, W]
          \<and> image_sizes r = map (\<lambda>img. (int (shape img ! 1), int (shape img ! 2))) images
          \<and> (\<forall>i < length images. \<forall>c y x.
                elem (data r) [i, c, y, x] =
                  (if y < shape (images ! i) ! 1 \<and> x < shape (images ! i) ! 2
                   then elem (images ! i) [c, y, x] else v))
          \<and> (\<forall>i < length images. \<forall>y x.
                elem (mask r) [i, y, x] =
                  (\<not> (y < shape (images ! i) ! 1 \<and> x < shape (images ! i) ! 2)))))"
proof (intro conjI impI)
  show "isl (batch images pv) \<longleftrightarrow>
      images = [] \<or> (\<exists>img \<in> set images. ndim img \<noteq> 3) \<or>
      (\<exists>a \<in> set images. \<exists>b \<in> set images.
         shape a ! 0 \<noteq> shape b ! 0 \<or> dtype a \<noteq> dtype b \<or> device a \<noteq> device b) \<or>
      isl (scalar_to (dtype (images ! 0)) pv)"
    unfolding batch_isl_iff check_images_fails_iff by blast
next
  assume n: "\<not> isl (batch images pv)"
  then have ok: "check_images images = Inr ()"
    by (simp add: batch_isl_iff)
  then have ne: "images \<noteq> []"
    by (simp add: check_images_Inr_iff)
  from n have "\<not> isl (scalar_to (dtype (images ! 0)) pv)"
    by (simp add: batch_isl_iff)
  then have v: "scalar_to (dtype (images ! 0)) pv
                  = Inr (projr (scalar_to (dtype (images ! 0)) pv))"
    by (cases "scalar_to (dtype (images ! 0)) pv") simp_all
  let ?v = "projr (scalar_to (dtype (images ! 0)) pv)"
  have H: "nat (py_max (map (\<lambda>img. int (shape img ! 1)) images))
             = Max ((\<lambda>img. shape img ! 1) ` set images)"
    by (rule nat_py_max_int [OF ne])
  have W: "nat (py_max (map (\<lambda>img. int (shape img ! 2)) images))
             = Max ((\<lambda>img. shape img ! 2) ` set images)"
    by (rule nat_py_max_int [OF ne])
  note r = batch_Inr [OF ok v, unfolded H W]
  have d: "\<forall>i < length images. \<forall>c y x.
      elem (data (projr (batch images pv))) [i, c, y, x] =
        (if y < shape (images ! i) ! 1 \<and> x < shape (images ! i) ! 2
         then elem (images ! i) [c, y, x] else ?v)"
  proof (intro allI impI)
    fix i c y x
    assume i: "i < length images"
    have "shape (images ! i) ! 1 \<le> Max ((\<lambda>img. shape img ! 1) ` set images)"
      by (rule max_dim_ge [OF i])
    moreover have "shape (images ! i) ! 2 \<le> Max ((\<lambda>img. shape img ! 2) ` set images)"
      by (rule max_dim_ge [OF i])
    ultimately show "elem (data (projr (batch images pv))) [i, c, y, x] =
        (if y < shape (images ! i) ! 1 \<and> x < shape (images ! i) ! 2
         then elem (images ! i) [c, y, x] else ?v)"
      using i by (simp add: r elem_fold_copy min_absorb1)
  qed
  have m: "\<forall>i < length images. \<forall>y x.
      elem (mask (projr (batch images pv))) [i, y, x] =
        (\<not> (y < shape (images ! i) ! 1 \<and> x < shape (images ! i) ! 2))"
  proof (intro allI impI)
    fix i y x
    assume i: "i < length images"
    have "shape (images ! i) ! 1 \<le> Max ((\<lambda>img. shape img ! 1) ` set images)"
      by (rule max_dim_ge [OF i])
    moreover have "shape (images ! i) ! 2 \<le> Max ((\<lambda>img. shape img ! 2) ` set images)"
      by (rule max_dim_ge [OF i])
    ultimately show "elem (mask (projr (batch images pv))) [i, y, x] =
        (\<not> (y < shape (images ! i) ! 1 \<and> x < shape (images ! i) ! 2))"
      using i by (simp add: r elem_compute_mask slice_stop_def min_absorb1)
  qed
  show "let r = projr (batch images pv);
            v = projr (scalar_to (dtype (images ! 0)) pv);
            H = Max ((\<lambda>img. shape img ! 1) ` set images);
            W = Max ((\<lambda>img. shape img ! 2) ` set images)
        in shape (data r) = [length images, shape (images ! 0) ! 0, H, W]
          \<and> dtype (data r) = dtype (images ! 0)
          \<and> device (data r) = device (images ! 0)
          \<and> shape (mask r) = [length images, H, W]
          \<and> image_sizes r = map (\<lambda>img. (int (shape img ! 1), int (shape img ! 2))) images
          \<and> (\<forall>i < length images. \<forall>c y x.
                elem (data r) [i, c, y, x] =
                  (if y < shape (images ! i) ! 1 \<and> x < shape (images ! i) ! 2
                   then elem (images ! i) [c, y, x] else v))
          \<and> (\<forall>i < length images. \<forall>y x.
                elem (mask r) [i, y, x] =
                  (\<not> (y < shape (images ! i) ! 1 \<and> x < shape (images ! i) ! 2)))"
    unfolding Let_def
  proof (intro conjI)
    show "shape (data (projr (batch images pv)))
            = [length images, shape (images ! 0) ! 0,
               Max ((\<lambda>img. shape img ! 1) ` set images),
               Max ((\<lambda>img. shape img ! 2) ` set images)]"
      by (simp add: r)
    show "dtype (data (projr (batch images pv))) = dtype (images ! 0)"
      by (simp add: r)
    show "device (data (projr (batch images pv))) = device (images ! 0)"
      by (simp add: r)
    show "shape (mask (projr (batch images pv)))
            = [length images, Max ((\<lambda>img. shape img ! 1) ` set images),
               Max ((\<lambda>img. shape img ! 2) ` set images)]"
      by (simp add: r)
    show "image_sizes (projr (batch images pv))
            = map (\<lambda>img. (int (shape img ! 1), int (shape img ! 2))) images"
      by (simp add: r)
  qed (rule d, rule m)
qed

theorem batch_contract_witness:
  "\<not> isl (batch [full [3, 4, 5] 1 UInt8 CPU, full [3, 6, 3] 2 UInt8 CPU] (PyInt 0))
   \<and> shape (data (projr (batch [full [3, 4, 5] 1 UInt8 CPU, full [3, 6, 3] 2 UInt8 CPU]
                             (PyInt 0))))
       = [2, 3, 6, 5]
   \<and> elem (data (projr (batch [full [3, 4, 5] 1 UInt8 CPU, full [3, 6, 3] 2 UInt8 CPU]
                            (PyInt 0))))
       [0, 2, 3, 4] = 1
   \<and> elem (data (projr (batch [full [3, 4, 5] 1 UInt8 CPU, full [3, 6, 3] 2 UInt8 CPU]
                            (PyInt 0))))
       [0, 2, 4, 0] = 0
   \<and> elem (mask (projr (batch [full [3, 4, 5] 1 UInt8 CPU, full [3, 6, 3] 2 UInt8 CPU]
                            (PyInt 0))))
       [0, 3, 4] = False
   \<and> elem (mask (projr (batch [full [3, 4, 5] 1 UInt8 CPU, full [3, 6, 3] 2 UInt8 CPU]
                            (PyInt 0))))
       [0, 4, 0] = True
   \<and> elem (mask (projr (batch [full [3, 4, 5] 1 UInt8 CPU, full [3, 6, 3] 2 UInt8 CPU]
                            (PyInt 0))))
       [1, 5, 2] = False
   \<and> elem (mask (projr (batch [full [3, 4, 5] 1 UInt8 CPU, full [3, 6, 3] 2 UInt8 CPU]
                            (PyInt 0))))
       [1, 0, 3] = True"
proof -
  let ?images = "[full [3, 4, 5] (1::real) UInt8 CPU, full [3, 6, 3] 2 UInt8 CPU]"
  note c = batch_contract [of ?images "PyInt 0"]
  have v: "scalar_to UInt8 (PyInt 0) = Inr 0"
    by (simp add: scalar_to_def)
  from c have ok: "\<not> isl (batch ?images (PyInt 0))"
    by (simp add: ndim_def v)
  with c have
    "let r = projr (batch ?images (PyInt 0));
         v = projr (scalar_to (dtype (?images ! 0)) (PyInt 0));
         H = Max ((\<lambda>img. shape img ! 1) ` set ?images);
         W = Max ((\<lambda>img. shape img ! 2) ` set ?images)
     in shape (data r) = [length ?images, shape (?images ! 0) ! 0, H, W]
      \<and> dtype (data r) = dtype (?images ! 0)
      \<and> device (data r) = device (?images ! 0)
      \<and> shape (mask r) = [length ?images, H, W]
      \<and> image_sizes r = map (\<lambda>img. (int (shape img ! 1), int (shape img ! 2))) ?images
      \<and> (\<forall>i < length ?images. \<forall>c y x.
            elem (data r) [i, c, y, x] =
              (if y < shape (?images ! i) ! 1 \<and> x < shape (?images ! i) ! 2
               then elem (?images ! i) [c, y, x] else v))
      \<and> (\<forall>i < length ?images. \<forall>y x.
            elem (mask r) [i, y, x] =
              (\<not> (y < shape (?images ! i) ! 1 \<and> x < shape (?images ! i) ! 2)))"
    by blast
  then have s: "shape (data (projr (batch ?images (PyInt 0)))) = [2, 3, 6, 5]"
    and d: "\<forall>i < length ?images. \<forall>c y x.
            elem (data (projr (batch ?images (PyInt 0)))) [i, c, y, x] =
              (if y < shape (?images ! i) ! 1 \<and> x < shape (?images ! i) ! 2
               then elem (?images ! i) [c, y, x] else 0)"
    and m: "\<forall>i < length ?images. \<forall>y x.
            elem (mask (projr (batch ?images (PyInt 0)))) [i, y, x] =
              (\<not> (y < shape (?images ! i) ! 1 \<and> x < shape (?images ! i) ! 2))"
    by (simp_all add: Let_def v)
  from d have "elem (data (projr (batch ?images (PyInt 0)))) [0, 2, 3, 4] = 1"
    and "elem (data (projr (batch ?images (PyInt 0)))) [0, 2, 4, 0] = 0"
    by simp_all
  moreover from m have "elem (mask (projr (batch ?images (PyInt 0)))) [0, 3, 4] = False"
    and "elem (mask (projr (batch ?images (PyInt 0)))) [0, 4, 0] = True"
    and "elem (mask (projr (batch ?images (PyInt 0)))) [1, 5, 2] = False"
    and "elem (mask (projr (batch ?images (PyInt 0)))) [1, 0, 3] = True"
    by simp_all
  ultimately show ?thesis
    using ok s by simp
qed

theorem batch_padding_conversion:
  "check_images [full [3, 4, 5] 1 UInt8 CPU, full [3, 6, 3] 2 UInt8 CPU] = Inr ()
   \<and> batch [full [3, 4, 5] 1 UInt8 CPU, full [3, 6, 3] 2 UInt8 CPU] (PyInt 300)
       = Inl (RuntimeError ''value cannot be converted to type uint8_t without overflow'')
   \<and> map_sum id (\<lambda>r. elem (data r) [0, 0, 5, 0])
         (batch [full [3, 4, 5] 1 UInt8 CPU, full [3, 6, 3] 2 UInt8 CPU] (PyInt (- 1)))
       = Inr 255
   \<and> map_sum id (\<lambda>r. elem (data r) [0, 0, 5, 0])
         (batch [full [3, 4, 5] 1 UInt8 CPU, full [3, 6, 3] 2 UInt8 CPU] (PyFloat (1 / 2)))
       = Inr 0"
proof -
  let ?images = "[full [3, 4, 5] (1::real) UInt8 CPU, full [3, 6, 3] 2 UInt8 CPU]"
  have ok: "check_images ?images = Inr ()"
    by (simp add: check_images_Inr_iff ndim_def)
  have d: "dtype (?images ! 0) = UInt8"
    by simp
  have "scalar_to (dtype (?images ! 0)) (PyInt 300)
          = Inl (RuntimeError ''value cannot be converted to type uint8_t without overflow'')"
    unfolding d by (simp add: scalar_to_def overflow_def)
  from batch_Inl [OF ok this] have a: "batch ?images (PyInt 300)
          = Inl (RuntimeError ''value cannot be converted to type uint8_t without overflow'')" .
  have "scalar_to (dtype (?images ! 0)) (PyInt (- 1)) = Inr 255"
    unfolding d by (simp add: scalar_to_def overflow_def)
  from batch_Inr [OF ok this]
  have b: "map_sum id (\<lambda>r. elem (data r) [0, 0, 5, 0]) (batch ?images (PyInt (- 1))) = Inr 255"
    by (simp add: elem_copy_image py_max_def)
  have "scalar_to (dtype (?images ! 0)) (PyFloat (1 / 2)) = Inr 0"
    unfolding d by (simp add: scalar_to_def overflow_def trunc_def)
  from batch_Inr [OF ok this]
  have c: "map_sum id (\<lambda>r. elem (data r) [0, 0, 5, 0]) (batch ?images (PyFloat (1 / 2))) = Inr 0"
    by (simp add: elem_copy_image py_max_def)
  from ok a b c show ?thesis by blast
qed

section \<open>Properties of BoundingBoxes\<close>

subsection \<open>Allocation and the results of the conversion methods\<close>

lemma extends_refl: "extends h h"
  by (simp add: extends_def)

lemma extends_trans: "extends h1 h2 \<Longrightarrow> extends h2 h3 \<Longrightarrow> extends h1 h3"
  by (simp add: extends_def)

lemma new_boxes_eq:
  "new_boxes h cs fmt nrm isz =
     (\<lparr>tensors = tensors h @ [cs],
       objects = objects h @ [\<lparr>coordinates_ref = length (tensors h), format = fmt,
                               normalized = nrm, image_size = isz\<rparr>]\<rparr>,
      length (objects h))"
  by (simp add: new_boxes_def new_tensor_def BoundingBoxes_init_def)

lemma new_boxes_spec:
  assumes "new_boxes h cs fmt nrm isz = (h', r)"
  shows "valid h' r" and "extends h h'" and "coordinates h' r = cs"
    and "format (objects h' ! r) = fmt" and "normalized (objects h' ! r) = nrm"
    and "image_size (objects h' ! r) = isz" and "r = length (objects h)"
    and "length (objects h') = Suc (length (objects h))"
    and "length (tensors h') = Suc (length (tensors h))"
  using assms
  by (auto simp add: new_boxes_eq valid_def extends_def coordinates_def nth_append)

lemma new_boxes_result: "result_is h (new_boxes h cs fmt nrm isz) cs fmt nrm isz"
proof -
  obtain h' r where eq: "new_boxes h cs fmt nrm isz = (h', r)"
    by (cases "new_boxes h cs fmt nrm isz")
  from new_boxes_spec(1-6) [OF eq] show ?thesis
    by (simp add: result_is_def eq)
qed

lemma self_result:
  assumes "valid h self"
  shows "result_is h (h, self) (coordinates h self) (format (objects h ! self))
           (normalized (objects h ! self)) (image_size (objects h ! self))"
  using assms by (simp add: result_is_def extends_refl)

lemma result_is_after:
  assumes "extends h0 h" and "result_is h res cs fmt nrm isz"
  shows "result_is h0 res cs fmt nrm isz"
  using assms by (auto simp add: result_is_def intro: extends_trans)

lemma rows_to_xyxy:
  "(\<lambda>c. let x1y1 = first2 c; x2y2 = add2 x1y1 (last2 c) in cat2 x1y1 x2y2) = row_as XYWH XYXY"
  "(\<lambda>c. let x1y1 = sub2 (first2 c) (half2 (last2 c)); x2y2 = add2 x1y1 (last2 c)
        in cat2 x1y1 x2y2) = row_as CXCYWH XYXY"
  by (auto simp add: fun_eq_iff row_as_def first2_def last2_def add2_def sub2_def half2_def
        cat2_def Let_def)

lemma rows_to_xywh:
  "(\<lambda>c. let xy = first2 c; wh = sub2 (last2 c) xy in cat2 xy wh) = row_as XYXY XYWH"
  "(\<lambda>c. let xy = sub2 (first2 c) (half2 (last2 c)); wh = last2 c in cat2 xy wh)
     = row_as CXCYWH XYWH"
  by (auto simp add: fun_eq_iff row_as_def first2_def last2_def add2_def sub2_def half2_def
        cat2_def Let_def)

lemma rows_to_cxcywh:
  "(\<lambda>c. let xy = first2 c; wh = sub2 (last2 c) xy in cat2 (add2 xy (half2 wh)) wh)
     = row_as XYXY CXCYWH"
  "(\<lambda>c. let xy = first2 c; wh = last2 c in cat2 (add2 xy (half2 wh)) wh) = row_as XYWH CXCYWH"
  by (auto simp add: fun_eq_iff row_as_def first2_def last2_def add2_def sub2_def half2_def
        cat2_def Let_def)

lemma row_as_same [simp]: "row_as f f = (\<lambda>c. c)"
  by (cases f) (simp_all add: row_as_def fun_eq_iff)

lemma to_xyxy_result:
  assumes "valid h self"
  shows "result_is h (to_xyxy h self)
           (map (row_as (format (objects h ! self)) XYXY) (coordinates h self)) XYXY
           (normalized (objects h ! self)) (image_size (objects h ! self))"
proof (cases "format (objects h ! self)")
  case XYXY
  with self_result [OF assms] show ?thesis by (simp add: to_xyxy_def)
next
  case XYWH
  then show ?thesis unfolding to_xyxy_def rows_to_xyxy by (simp add: new_boxes_result)
next
  case CXCYWH
  then show ?thesis unfolding to_xyxy_def rows_to_xyxy by (simp add: new_boxes_result)
qed

lemma to_xywh_result:
  assumes "valid h self"
  shows "result_is h (to_xywh h self)
           (map (row_as (format (objects h ! self)) XYWH) (coordinates h self)) XYWH
           (normalized (objects h ! self)) (image_size (objects h ! self))"
proof (cases "format (objects h ! self)")
  case XYXY
  then show ?thesis unfolding to_xywh_def rows_to_xywh by (simp add: new_boxes_result)
next
  case XYWH
  with self_result [OF assms] show ?thesis by (simp add: to_xywh_def)
next
  case CXCYWH
  then show ?thesis unfolding to_xywh_def rows_to_xywh by (simp add: new_boxes_result)
qed

lemma to_cxcywh_result:
  assumes "valid h self"
  shows "result_is h (to_cxcywh h self)
           (map (row_as (format (objects h ! self)) CXCYWH) (coordinates h self)) CXCYWH
           (normalized (objects h ! self)) (image_size (objects h ! self))"
proof (cases "format (objects h ! self)")
  case XYXY
  then show ?thesis unfolding to_cxcywh_def rows_to_cxcywh by (simp add: new_boxes_result)
next
  case XYWH
  then show ?thesis unfolding to_cxcywh_def rows_to_cxcywh by (simp add: new_boxes_result)
next
  case CXCYWH
  with self_result [OF assms] show ?thesis by (simp add: to_cxcywh_def)
qed

lemma row_scaled_cases:
  "row_scaled m m isz = (\<lambda>c. c)"
  "row_scaled False True isz = (\<lambda>c. div4 c (norm_factor isz))"
  "row_scaled True False isz = (\<lambda>c. mul4 c (norm_factor isz))"
  by (simp_all add: fun_eq_iff row_scaled_def)

lemma normalize_boxes_result:
  assumes "valid h self"
  shows "result_is h (normalize_boxes h self)
           (map (row_scaled (normalized (objects h ! self)) True (image_size (objects h ! self)))
              (coordinates h self))
           (format (objects h ! self)) True (image_size (objects h ! self))"
proof (cases "normalized (objects h ! self)")
  case True
  with self_result [OF assms] show ?thesis
    by (simp add: normalize_boxes_def row_scaled_cases)
next
  case False
  then show ?thesis
    by (simp add: normalize_boxes_def row_scaled_cases new_boxes_result)
qed

lemma denormalize_result:
  assumes "valid h self"
  shows "result_is h (denormalize h self)
           (map (row_scaled (normalized (objects h ! self)) False (image_size (objects h ! self)))
              (coordinates h self))
           (format (objects h ! self)) False (image_size (objects h ! self))"
proof (cases "normalized (objects h ! self)")
  case True
  then show ?thesis
    by (simp add: denormalize_def row_scaled_cases new_boxes_result)
next
  case False
  with self_result [OF assms] show ?thesis
    by (simp add: denormalize_def row_scaled_cases)
qed

lemma format_step_result:
  assumes "valid h self"
  shows "result_is h
           (case fo of Some XYXY \<Rightarrow> to_xyxy h self | Some XYWH \<Rightarrow> to_xywh h self
            | Some CXCYWH \<Rightarrow> to_cxcywh h self | None \<Rightarrow> (h, self))
           (map (row_as (format (objects h ! self))
                   (case fo of None \<Rightarrow> format (objects h ! self) | Some f \<Rightarrow> f))
              (coordinates h self))
           (case fo of None \<Rightarrow> format (objects h ! self) | Some f \<Rightarrow> f)
           (normalized (objects h ! self)) (image_size (objects h ! self))"
proof (cases fo)
  case None
  with self_result [OF assms] show ?thesis by simp
next
  case (Some f)
  with to_xyxy_result [OF assms] to_xywh_result [OF assms] to_cxcywh_result [OF assms]
  show ?thesis by (cases f) simp_all
qed

lemma normalized_step_result:
  assumes "valid h self"
  shows "result_is h
           (case no of Some True \<Rightarrow> normalize_boxes h self | Some False \<Rightarrow> denormalize h self
            | None \<Rightarrow> (h, self))
           (map (row_scaled (normalized (objects h ! self))
                   (case no of None \<Rightarrow> normalized (objects h ! self) | Some n \<Rightarrow> n)
                   (image_size (objects h ! self)))
              (coordinates h self))
           (format (objects h ! self))
           (case no of None \<Rightarrow> normalized (objects h ! self) | Some n \<Rightarrow> n)
           (image_size (objects h ! self))"
proof (cases no)
  case None
  with self_result [OF assms] show ?thesis by (simp add: row_scaled_cases)
next
  case (Some n)
  with normalize_boxes_result [OF assms] denormalize_result [OF assms]
  show ?thesis by (cases n) simp_all
qed

lemma convert_result:
  assumes "valid h self"
  shows "result_is h (convert h self fo no)
           (map (row_scaled (normalized (objects h ! self))
                   (case no of None \<Rightarrow> normalized (objects h ! self) | Some n \<Rightarrow> n)
                   (image_size (objects h ! self)))
              (map (row_as (format (objects h ! self))
                      (case fo of None \<Rightarrow> format (objects h ! self) | Some f \<Rightarrow> f))
                 (coordinates h self)))
           (case fo of None \<Rightarrow> format (objects h ! self) | Some f \<Rightarrow> f)
           (case no of None \<Rightarrow> normalized (objects h ! self) | Some n \<Rightarrow> n)
           (image_size (objects h ! self))"
proof -
  obtain h1 r1 where step1:
    "(case fo of Some XYXY \<Rightarrow> to_xyxy h self | Some XYWH \<Rightarrow> to_xywh h self
      | Some CXCYWH \<Rightarrow> to_cxcywh h self | None \<Rightarrow> (h, self)) = (h1, r1)"
    by (cases "case fo of Some XYXY \<Rightarrow> to_xyxy h self | Some XYWH \<Rightarrow> to_xywh h self
      | Some CXCYWH \<Rightarrow> to_cxcywh h self | None \<Rightarrow> (h, self)")
  from format_step_result [OF assms, of fo] have r1:
    "valid h1 r1" "extends h h1"
    "coordinates h1 r1 = map (row_as (format (objects h ! self))
        (case fo of None \<Rightarrow> format (objects h ! self) | Some f \<Rightarrow> f)) (coordinates h self)"
    "format (objects h1 ! r1) = (case fo of None \<Rightarrow> format (objects h ! self) | Some f \<Rightarrow> f)"
    "normalized (objects h1 ! r1) = normalized (objects h ! self)"
    "image_size (objects h1 ! r1) = image_size (objects h ! self)"
    unfolding step1 by (simp_all add: result_is_def)
  have "convert h self fo no =
      (case no of Some True \<Rightarrow> normalize_boxes h1 r1 | Some False \<Rightarrow> denormalize h1 r1
       | None \<Rightarrow> (h1, r1))"
    by (simp add: convert_def step1)
  with result_is_after [OF r1(2) normalized_step_result [OF r1(1), of no]]
  show ?thesis
    by (simp add: r1 cong: option.case_cong)
qed

lemma row_as_inverse: "row_as g f (row_as f g c) = c"
  by (cases f; cases g; cases c) (simp_all add: row_as_def)

lemma row_scaled_commute:
  "row_scaled m n isz (row_as f g c) = row_as f g (row_scaled m n isz c)"
  by (cases f; cases g; cases c; cases isz)
    (simp_all add: row_as_def row_scaled_def div4_def mul4_def norm_factor_def
       add_divide_distrib diff_divide_distrib distrib_right left_diff_distrib)

lemma row_scaled_inverse:
  assumes "fst isz \<noteq> 0" and "snd isz \<noteq> 0"
  shows "row_scaled n m isz (row_scaled m n isz c) = c"
  using assms
  by (cases c; cases isz) (simp add: row_scaled_def div4_def mul4_def norm_factor_def)

lemma round_trip_row:
  assumes "fst isz \<noteq> 0" and "snd isz \<noteq> 0"
  shows "row_scaled n m isz (row_as g f (row_scaled m n isz (row_as f g c))) = c"
  by (simp add: row_scaled_commute row_scaled_inverse [OF assms] row_as_inverse)

subsection \<open>The round trip of conversions\<close>

lemma round_trip_result:
  assumes "valid h b"
  shows "result_is h (round_trip h b f2 n2)
           (map (\<lambda>c. row_scaled n2 (normalized (objects h ! b)) (image_size (objects h ! b))
                   (row_as f2 (format (objects h ! b))
                     (row_scaled (normalized (objects h ! b)) n2 (image_size (objects h ! b))
                       (row_as (format (objects h ! b)) f2 c))))
              (coordinates h b))
           (format (objects h ! b)) (normalized (objects h ! b)) (image_size (objects h ! b))"
proof -
  obtain h1 r1 where c1: "convert h b (Some f2) (Some n2) = (h1, r1)"
    by (cases "convert h b (Some f2) (Some n2)")
  from convert_result [OF assms, of "Some f2" "Some n2"] have r1:
    "valid h1 r1" "extends h h1"
    "coordinates h1 r1 =
       map (row_scaled (normalized (objects h ! b)) n2 (image_size (objects h ! b)))
         (map (row_as (format (objects h ! b)) f2) (coordinates h b))"
    "format (objects h1 ! r1) = f2" "normalized (objects h1 ! r1) = n2"
    "image_size (objects h1 ! r1) = image_size (objects h ! b)"
    unfolding c1 by (simp_all add: result_is_def)
  from result_is_after [OF r1(2) convert_result [OF r1(1),
        of "Some (format (objects h ! b))" "Some (normalized (objects h ! b))"]]
  show ?thesis
    by (simp add: round_trip_def c1 r1 comp_def)
qed

text \<open>
  C5. For boxes on an image whose height and width are not zero, converting to any target
  format and normalization state and back to the state of \<open>b\<close> gives the coordinates of
  \<open>b\<close> again, exactly, with its format, normalization state and image size.
  Normalization divides by the image sides, and the constructor accepts a side that is
  zero: for the box \<open>(1, 2, 3, 5)\<close> on an image of height 0 and width 20, the round trip
  through the normalized state does not give the coordinates back. The float32 tensors
  hold \<open>2 / 0 = inf\<close> and then \<open>inf * 0 = nan\<close> for the two vertical coordinates, as the
  third theorem below shows.
\<close>

theorem convert_round_trip:
  assumes "valid h b"
    and "fst (image_size (objects h ! b)) \<noteq> 0" and "snd (image_size (objects h ! b)) \<noteq> 0"
  shows "coordinates (fst (round_trip h b format2 normalized2))
             (snd (round_trip h b format2 normalized2)) = coordinates h b
       \<and> format (objects (fst (round_trip h b format2 normalized2))
             ! snd (round_trip h b format2 normalized2)) = format (objects h ! b)
       \<and> normalized (objects (fst (round_trip h b format2 normalized2))
             ! snd (round_trip h b format2 normalized2)) = normalized (objects h ! b)
       \<and> image_size (objects (fst (round_trip h b format2 normalized2))
             ! snd (round_trip h b format2 normalized2)) = image_size (objects h ! b)"
  using round_trip_result [OF assms(1), of format2 normalized2]
  by (simp add: result_is_def split_beta round_trip_row [OF assms(2,3)])

theorem convert_round_trip_witness:
  "coordinates
     (fst (round_trip \<lparr>tensors = [[(1, 2, 3, 5)]],
             objects = [\<lparr>coordinates_ref = 0, format = XYXY, normalized = False,
                         image_size = (10, 20)\<rparr>]\<rparr> 0 CXCYWH True))
     (snd (round_trip \<lparr>tensors = [[(1, 2, 3, 5)]],
             objects = [\<lparr>coordinates_ref = 0, format = XYXY, normalized = False,
                         image_size = (10, 20)\<rparr>]\<rparr> 0 CXCYWH True))
   = [(1, 2, 3, 5)]"
  using convert_round_trip [of "\<lparr>tensors = [[(1, 2, 3, 5)]],
             objects = [\<lparr>coordinates_ref = 0, format = XYXY, normalized = False,
                         image_size = (10, 20)\<rparr>]\<rparr>" 0 CXCYWH True]
  by (simp add: valid_def coordinates_def)

theorem convert_round_trip_zero_side:
  "coordinates
     (fst (round_trip \<lparr>tensors = [[(1, 2, 3, 5)]],
             objects = [\<lparr>coordinates_ref = 0, format = XYXY, normalized = False,
                         image_size = (0, 20)\<rparr>]\<rparr> 0 XYXY True))
     (snd (round_trip \<lparr>tensors = [[(1, 2, 3, 5)]],
             objects = [\<lparr>coordinates_ref = 0, format = XYXY, normalized = False,
                         image_size = (0, 20)\<rparr>]\<rparr> 0 XYXY True))
   \<noteq> [(1, 2, 3, 5)]
   \<and> denormalize32 (0, 20) (normalize32 (0, 20) (Num 1, Num 2, Num 3, Num 5))
       = (Num 1, NaN, Num 3, NaN)"
  by (simp add: round_trip_def convert_def to_xyxy_def normalize_boxes_def denormalize_def
        new_boxes_def new_tensor_def BoundingBoxes_init_def coordinates_def
        div4_def mul4_def norm_factor_def nth_append
        normalize32_def denormalize32_def overflow32_def)

subsection \<open>The horizontal flip\<close>

lemma horizontal_flip_eq:
  "horizontal_flip h b =
     (\<lparr>tensors = tensors h @
          [map (flip_row (format (objects h ! b))
                  (if normalized (objects h ! b) then 1
                   else real_of_int (snd (image_size (objects h ! b)))))
             (coordinates h b)],
       objects = objects h @
          [\<lparr>coordinates_ref = length (tensors h), format = format (objects h ! b),
            normalized = normalized (objects h ! b),
            image_size = image_size (objects h ! b)\<rparr>]\<rparr>,
      length (objects h))"
proof -
  have rows:
    "(\<lambda>(x1, y1, x2, y2). (- (x2 - W), y1, - (x1 - W), y2)) = flip_row XYXY W"
    "(\<lambda>(x, y, w, hh). (- ((x + w) - W), y, w, hh)) = flip_row XYWH W"
    "(\<lambda>(cx, cy, w, hh). (- (cx - W), cy, w, hh)) = flip_row CXCYWH W" for W
    by (simp_all add: fun_eq_iff flip_row_def)
  show ?thesis
    unfolding horizontal_flip_def rows
    by (cases "format (objects h ! b)")
      (simp_all add: clone_def new_tensor_def update_rows_def BoundingBoxes_init_def
         coordinates_def Let_def)
qed

lemma flip_row_involution: "flip_row f W (flip_row f W c) = c"
  by (cases f; cases c) (simp_all add: flip_row_def)

text \<open>
  C9. Flipping twice gives the coordinates of \<open>b\<close> again, with its format, normalization
  state and image size. A flip leaves every tensor and every object of the heap as it was,
  the coordinates of \<open>b\<close> among them: the flipped object has a tensor of its own.
\<close>

theorem horizontal_flip_involution:
  assumes "valid h b"
  shows "coordinates (fst (flip_twice h b)) (snd (flip_twice h b)) = coordinates h b
       \<and> format (objects (fst (flip_twice h b)) ! snd (flip_twice h b)) = format (objects h ! b)
       \<and> normalized (objects (fst (flip_twice h b)) ! snd (flip_twice h b))
           = normalized (objects h ! b)
       \<and> image_size (objects (fst (flip_twice h b)) ! snd (flip_twice h b))
           = image_size (objects h ! b)
       \<and> coordinates (fst (horizontal_flip h b)) b = coordinates h b
       \<and> coordinates (fst (flip_twice h b)) b = coordinates h b
       \<and> take (length (tensors h)) (tensors (fst (horizontal_flip h b))) = tensors h
       \<and> take (length (objects h)) (objects (fst (horizontal_flip h b))) = objects h
       \<and> coordinates_ref (objects (fst (horizontal_flip h b)) ! snd (horizontal_flip h b))
           \<noteq> coordinates_ref (objects h ! b)"
  using assms
  by (simp add: flip_twice_def horizontal_flip_eq coordinates_def valid_def nth_append
        flip_row_involution comp_def)

theorem horizontal_flip_involution_witness:
  "coordinates
     (fst (flip_twice \<lparr>tensors = [[(1, 2, 3, 5)]],
             objects = [\<lparr>coordinates_ref = 0, format = XYXY, normalized = False,
                         image_size = (10, 20)\<rparr>]\<rparr> 0))
     (snd (flip_twice \<lparr>tensors = [[(1, 2, 3, 5)]],
             objects = [\<lparr>coordinates_ref = 0, format = XYXY, normalized = False,
                         image_size = (10, 20)\<rparr>]\<rparr> 0))
   = [(1, 2, 3, 5)]
   \<and> coordinates
     (fst (horizontal_flip \<lparr>tensors = [[(1, 2, 3, 5)]],
             objects = [\<lparr>coordinates_ref = 0, format = XYXY, normalized = False,
                         image_size = (10, 20)\<rparr>]\<rparr> 0)) 0
   = [(1, 2, 3, 5)]"
  using horizontal_flip_involution [of "\<lparr>tensors = [[(1, 2, 3, 5)]],
             objects = [\<lparr>coordinates_ref = 0, format = XYXY, normalized = False,
                         image_size = (10, 20)\<rparr>]\<rparr>" 0]
  by (simp add: valid_def coordinates_def)

lemma horizontal_flip_example:
  "coordinates
     (fst (horizontal_flip \<lparr>tensors = [[(1, 2, 3, 5)]],
             objects = [\<lparr>coordinates_ref = 0, format = XYXY, normalized = False,
                         image_size = (10, 20)\<rparr>]\<rparr> 0))
     (snd (horizontal_flip \<lparr>tensors = [[(1, 2, 3, 5)]],
             objects = [\<lparr>coordinates_ref = 0, format = XYXY, normalized = False,
                         image_size = (10, 20)\<rparr>]\<rparr> 0))
   = [(17, 2, 19, 5)]"
  by (simp add: horizontal_flip_def clone_def new_tensor_def update_rows_def
        BoundingBoxes_init_def coordinates_def)

subsection \<open>Conversions that return the receiver\<close>

text \<open>
  C8. A conversion to the format, or to the normalization state, that the object already
  has returns the address of the receiver and leaves the heap as it is: the result is the
  same object, and nothing is allocated.
\<close>

theorem conversions_return_self:
  "(format (objects h ! self) = XYXY \<longrightarrow> to_xyxy h self = (h, self))
   \<and> (format (objects h ! self) = XYWH \<longrightarrow> to_xywh h self = (h, self))
   \<and> (format (objects h ! self) = CXCYWH \<longrightarrow> to_cxcywh h self = (h, self))
   \<and> (normalized (objects h ! self) \<longrightarrow> normalize_boxes h self = (h, self))
   \<and> (\<not> normalized (objects h ! self) \<longrightarrow> denormalize h self = (h, self))"
  by (simp add: to_xyxy_def to_xywh_def to_cxcywh_def normalize_boxes_def denormalize_def)

theorem conversions_return_self_witness:
  "to_xyxy \<lparr>tensors = [[(1, 2, 3, 5)]],
            objects = [\<lparr>coordinates_ref = 0, format = XYXY, normalized = False,
                        image_size = (10, 20)\<rparr>]\<rparr> 0
     = (\<lparr>tensors = [[(1, 2, 3, 5)]],
         objects = [\<lparr>coordinates_ref = 0, format = XYXY, normalized = False,
                     image_size = (10, 20)\<rparr>]\<rparr>, 0)
   \<and> denormalize \<lparr>tensors = [[(1, 2, 3, 5)]],
            objects = [\<lparr>coordinates_ref = 0, format = XYXY, normalized = False,
                        image_size = (10, 20)\<rparr>]\<rparr> 0
     = (\<lparr>tensors = [[(1, 2, 3, 5)]],
         objects = [\<lparr>coordinates_ref = 0, format = XYXY, normalized = False,
                     image_size = (10, 20)\<rparr>]\<rparr>, 0)
   \<and> to_xywh \<lparr>tensors = [[(1, 2, 3, 5)]],
            objects = [\<lparr>coordinates_ref = 0, format = XYWH, normalized = True,
                        image_size = (10, 20)\<rparr>]\<rparr> 0
     = (\<lparr>tensors = [[(1, 2, 3, 5)]],
         objects = [\<lparr>coordinates_ref = 0, format = XYWH, normalized = True,
                     image_size = (10, 20)\<rparr>]\<rparr>, 0)
   \<and> normalize_boxes \<lparr>tensors = [[(1, 2, 3, 5)]],
            objects = [\<lparr>coordinates_ref = 0, format = XYWH, normalized = True,
                        image_size = (10, 20)\<rparr>]\<rparr> 0
     = (\<lparr>tensors = [[(1, 2, 3, 5)]],
         objects = [\<lparr>coordinates_ref = 0, format = XYWH, normalized = True,
                     image_size = (10, 20)\<rparr>]\<rparr>, 0)
   \<and> to_cxcywh \<lparr>tensors = [[(1, 2, 3, 5)]],
            objects = [\<lparr>coordinates_ref = 0, format = CXCYWH, normalized = True,
                        image_size = (10, 20)\<rparr>]\<rparr> 0
     = (\<lparr>tensors = [[(1, 2, 3, 5)]],
         objects = [\<lparr>coordinates_ref = 0, format = CXCYWH, normalized = True,
                     image_size = (10, 20)\<rparr>]\<rparr>, 0)"
  using
    conversions_return_self [of "\<lparr>tensors = [[(1, 2, 3, 5)]],
            objects = [\<lparr>coordinates_ref = 0, format = XYXY, normalized = False,
                        image_size = (10, 20)\<rparr>]\<rparr>" 0]
    conversions_return_self [of "\<lparr>tensors = [[(1, 2, 3, 5)]],
            objects = [\<lparr>coordinates_ref = 0, format = XYWH, normalized = True,
                        image_size = (10, 20)\<rparr>]\<rparr>" 0]
    conversions_return_self [of "\<lparr>tensors = [[(1, 2, 3, 5)]],
            objects = [\<lparr>coordinates_ref = 0, format = CXCYWH, normalized = True,
                        image_size = (10, 20)\<rparr>]\<rparr>" 0]
  by simp

lemma conversion_new_object:
  assumes "valid h self" and "format (objects h ! self) \<noteq> XYXY"
  shows "snd (to_xyxy h self) = length (objects h)" and "snd (to_xyxy h self) \<noteq> self"
  using assms
  by (cases "format (objects h ! self)"; simp add: to_xyxy_def new_boxes_eq valid_def)+

subsection \<open>Union and intersection\<close>

lemma extends_valid: "extends h h' \<Longrightarrow> valid h r \<Longrightarrow> valid h' r"
  by (simp add: extends_def)

lemma extends_object: "extends h h' \<Longrightarrow> valid h r \<Longrightarrow> objects h' ! r = objects h ! r"
  by (simp add: extends_def)

lemma extends_coordinates:
  "extends h h' \<Longrightarrow> valid h r \<Longrightarrow> coordinates h' r = coordinates h r"
  by (simp add: extends_def)

lemma pair_prep:
  assumes a: "valid h a" and b: "valid h b"
  obtains h1 b1 h2 b2 where
    "to_xyxy h a = (h1, b1)" and "convert_like h1 b b1 = (h2, b2)"
    and "valid h2 b1" and "valid h2 b2" and "extends h h2"
    and "coordinates h2 b1 = map (row_as (format (objects h ! a)) XYXY) (coordinates h a)"
    and "normalized (objects h2 ! b1) = normalized (objects h ! a)"
    and "image_size (objects h2 ! b1) = image_size (objects h ! a)"
    and "coordinates h2 b2 =
           map (row_scaled (normalized (objects h ! b)) (normalized (objects h ! a))
                  (image_size (objects h ! b)))
             (map (row_as (format (objects h ! b)) XYXY) (coordinates h b))"
    and "image_size (objects h2 ! b2) = image_size (objects h ! b)"
proof -
  obtain h1 b1 where s1: "to_xyxy h a = (h1, b1)"
    by (cases "to_xyxy h a")
  from to_xyxy_result [OF a] have r1:
    "valid h1 b1" "extends h h1"
    "coordinates h1 b1 = map (row_as (format (objects h ! a)) XYXY) (coordinates h a)"
    "format (objects h1 ! b1) = XYXY"
    "normalized (objects h1 ! b1) = normalized (objects h ! a)"
    "image_size (objects h1 ! b1) = image_size (objects h ! a)"
    unfolding s1 by (simp_all add: result_is_def)
  have vb: "valid h1 b" and ob: "objects h1 ! b = objects h ! b"
    and cb: "coordinates h1 b = coordinates h b"
    using r1(2) b by (simp_all add: extends_def)
  obtain h2 b2 where s2: "convert_like h1 b b1 = (h2, b2)"
    by (cases "convert_like h1 b b1")
  from convert_result [OF vb, of "Some XYXY" "Some (normalized (objects h ! a))"] have r2:
    "valid h2 b2" "extends h1 h2"
    "coordinates h2 b2 =
           map (row_scaled (normalized (objects h ! b)) (normalized (objects h ! a))
                  (image_size (objects h ! b)))
             (map (row_as (format (objects h ! b)) XYXY) (coordinates h b))"
    "image_size (objects h2 ! b2) = image_size (objects h ! b)"
    using s2 by (simp_all add: convert_like_def r1 ob cb result_is_def)
  show thesis
  proof (rule that [OF s1 s2])
    show "valid h2 b1" using r2(2) r1(1) by (rule extends_valid)
    show "valid h2 b2" by (rule r2(1))
    show "extends h h2" using r1(2) r2(2) by (rule extends_trans)
    show "coordinates h2 b1 = map (row_as (format (objects h ! a)) XYXY) (coordinates h a)"
      using extends_coordinates [OF r2(2) r1(1)] r1(3) by simp
    show "normalized (objects h2 ! b1) = normalized (objects h ! a)"
      using extends_object [OF r2(2) r1(1)] r1(5) by simp
    show "image_size (objects h2 ! b1) = image_size (objects h ! a)"
      using extends_object [OF r2(2) r1(1)] r1(6) by simp
    show "coordinates h2 b2 =
           map (row_scaled (normalized (objects h ! b)) (normalized (objects h ! a))
                  (image_size (objects h ! b)))
             (map (row_as (format (objects h ! b)) XYXY) (coordinates h b))"
      by (rule r2(3))
    show "image_size (objects h2 ! b2) = image_size (objects h ! b)"
      by (rule r2(4))
  qed
qed

lemma len_eq: "len h r = length (coordinates h r)"
  by (simp add: len_def)

lemma last2_cat2 [simp]: "last2 (cat2 u v) = v"
  by (cases v) (simp add: last2_def cat2_def)

lemma clamp_min0_nonneg: "0 \<le> fst (clamp_min0 u) \<and> 0 \<le> snd (clamp_min0 u)"
  by (simp add: clamp_min0_def)

lemma set_ops_errors:
  assumes a: "valid h a" and b: "valid h b"
  shows "len h a \<noteq> len h b \<Longrightarrow>
           union_boxes h a b = Inl (ValueError ''The number of bounding boxes must be the same'')
         \<and> intersection_boxes h a b
             = Inl (ValueError ''The number of bounding boxes must be the same'')"
    and "len h a = len h b \<Longrightarrow> image_size (objects h ! a) \<noteq> image_size (objects h ! b) \<Longrightarrow>
           union_boxes h a b = Inl (ValueError ''The bounding box image size must be the same'')
         \<and> intersection_boxes h a b
             = Inl (ValueError ''The bounding box image size must be the same'')"
proof -
  from a b obtain h1 b1 h2 b2 where p:
    "to_xyxy h a = (h1, b1)" "convert_like h1 b b1 = (h2, b2)"
    "coordinates h2 b1 = map (row_as (format (objects h ! a)) XYXY) (coordinates h a)"
    "image_size (objects h2 ! b1) = image_size (objects h ! a)"
    "coordinates h2 b2 =
           map (row_scaled (normalized (objects h ! b)) (normalized (objects h ! a))
                  (image_size (objects h ! b)))
             (map (row_as (format (objects h ! b)) XYXY) (coordinates h b))"
    "image_size (objects h2 ! b2) = image_size (objects h ! b)"
    by (rule pair_prep)
  show "len h a \<noteq> len h b \<Longrightarrow>
           union_boxes h a b = Inl (ValueError ''The number of bounding boxes must be the same'')
         \<and> intersection_boxes h a b
             = Inl (ValueError ''The number of bounding boxes must be the same'')"
    by (simp add: union_boxes_def intersection_boxes_def p check_compatibility_def len_eq)
  show "len h a = len h b \<Longrightarrow> image_size (objects h ! a) \<noteq> image_size (objects h ! b) \<Longrightarrow>
           union_boxes h a b = Inl (ValueError ''The bounding box image size must be the same'')
         \<and> intersection_boxes h a b
             = Inl (ValueError ''The bounding box image size must be the same'')"
    by (simp add: union_boxes_def intersection_boxes_def p check_compatibility_def len_eq)
qed

lemma set_ops_ok:
  assumes a: "valid h a" and b: "valid h b"
    and c: "len h a = len h b" "image_size (objects h ! a) = image_size (objects h ! b)"
  shows "\<exists>h' r. union_boxes h a b = Inr (h', r) \<and> valid h' r \<and> extends h h'
           \<and> format (objects h' ! r) = XYXY
           \<and> normalized (objects h' ! r) = normalized (objects h ! a)
           \<and> image_size (objects h' ! r) = image_size (objects h ! a)
           \<and> length (coordinates h' r) = len h a"
    and "\<exists>h' r. intersection_boxes h a b = Inr (h', r) \<and> valid h' r \<and> extends h h'
           \<and> format (objects h' ! r) = XYWH
           \<and> normalized (objects h' ! r) = normalized (objects h ! a)
           \<and> image_size (objects h' ! r) = image_size (objects h ! a)
           \<and> length (coordinates h' r) = len h a
           \<and> (\<forall>c \<in> set (coordinates h' r). 0 \<le> fst (last2 c) \<and> 0 \<le> snd (last2 c))"
proof -
  from a b obtain h1 b1 h2 b2 where p:
    "to_xyxy h a = (h1, b1)" "convert_like h1 b b1 = (h2, b2)"
    "coordinates h2 b1 = map (row_as (format (objects h ! a)) XYXY) (coordinates h a)"
    "image_size (objects h2 ! b1) = image_size (objects h ! a)"
    "coordinates h2 b2 =
           map (row_scaled (normalized (objects h ! b)) (normalized (objects h ! a))
                  (image_size (objects h ! b)))
             (map (row_as (format (objects h ! b)) XYXY) (coordinates h b))"
    "image_size (objects h2 ! b2) = image_size (objects h ! b)"
    and q: "extends h h2" "normalized (objects h2 ! b1) = normalized (objects h ! a)"
    by (rule pair_prep)
  have ok: "check_compatibility h2 b1 b2 = Inr ()"
    using c by (simp add: check_compatibility_def len_eq p)
  let ?u = "new_boxes h2
     (map2 (\<lambda>c1 c2. let x1y1 = min2 (first2 c1) (first2 c2); x2y2 = max2 (last2 c1) (last2 c2)
                     in cat2 x1y1 x2y2)
        (coordinates h2 b1) (coordinates h2 b2))
     XYXY (normalized (objects h2 ! b1)) (image_size (objects h2 ! b1))"
  let ?i = "new_boxes h2
     (map2 (\<lambda>c1 c2. let x1y1 = max2 (first2 c1) (first2 c2); x2y2 = min2 (last2 c1) (last2 c2);
                         wh = clamp_min0 (sub2 x2y2 x1y1)
                     in cat2 x1y1 wh)
        (coordinates h2 b1) (coordinates h2 b2))
     XYWH (normalized (objects h2 ! b1)) (image_size (objects h2 ! b1))"
  have u: "union_boxes h a b = Inr ?u"
    unfolding union_boxes_def by (simp only: p(1,2) ok prod.case sum.case)
  have i: "intersection_boxes h a b = Inr ?i"
    unfolding intersection_boxes_def by (simp only: p(1,2) ok prod.case sum.case)
  obtain hu ru where eu: "?u = (hu, ru)" by (cases ?u)
  obtain hi ri where ei: "?i = (hi, ri)" by (cases ?i)
  note su = new_boxes_spec(1-6) [OF eu]
  note si = new_boxes_spec(1-6) [OF ei]
  show "\<exists>h' r. union_boxes h a b = Inr (h', r) \<and> valid h' r \<and> extends h h'
           \<and> format (objects h' ! r) = XYXY
           \<and> normalized (objects h' ! r) = normalized (objects h ! a)
           \<and> image_size (objects h' ! r) = image_size (objects h ! a)
           \<and> length (coordinates h' r) = len h a"
  proof (intro exI conjI)
    show "union_boxes h a b = Inr (hu, ru)" by (simp only: u eu)
    show "valid hu ru" by (rule su)
    show "extends h hu" using q(1) su(2) by (rule extends_trans)
    show "format (objects hu ! ru) = XYXY" by (rule su)
    show "normalized (objects hu ! ru) = normalized (objects h ! a)" by (simp only: su q)
    show "image_size (objects hu ! ru) = image_size (objects h ! a)" by (simp only: su p)
    show "length (coordinates hu ru) = len h a" using c by (simp add: su p len_eq)
  qed
  show "\<exists>h' r. intersection_boxes h a b = Inr (h', r) \<and> valid h' r \<and> extends h h'
           \<and> format (objects h' ! r) = XYWH
           \<and> normalized (objects h' ! r) = normalized (objects h ! a)
           \<and> image_size (objects h' ! r) = image_size (objects h ! a)
           \<and> length (coordinates h' r) = len h a
           \<and> (\<forall>c \<in> set (coordinates h' r). 0 \<le> fst (last2 c) \<and> 0 \<le> snd (last2 c))"
  proof (intro exI conjI)
    show "intersection_boxes h a b = Inr (hi, ri)" by (simp only: i ei)
    show "valid hi ri" by (rule si)
    show "extends h hi" using q(1) si(2) by (rule extends_trans)
    show "format (objects hi ! ri) = XYWH" by (rule si)
    show "normalized (objects hi ! ri) = normalized (objects h ! a)" by (simp only: si q)
    show "image_size (objects hi ! ri) = image_size (objects h ! a)" by (simp only: si p)
    show "length (coordinates hi ri) = len h a" using c by (simp add: si p len_eq)
    show "\<forall>c \<in> set (coordinates hi ri). 0 \<le> fst (last2 c) \<and> 0 \<le> snd (last2 c)"
      unfolding si(3)
      by (auto simp add: Let_def clamp_min0_nonneg dest!: set_zip_leftD [rotated -1] elim!: in_set_zipE)
  qed
qed

lemma area_xywh_nonneg:
  assumes "format (objects h ! r) = XYWH"
    and "\<forall>c \<in> set (coordinates h r). 0 \<le> fst (last2 c) \<and> 0 \<le> snd (last2 c)"
  shows "\<forall>x \<in> set (area h r). 0 \<le> x"
  using assms by (auto simp add: area_def)

text \<open>
  C10. Over exact arithmetic, for compatible operands \<^verbatim>\<open>intersection\<close> returns an
  object in format XYWH whose widths and heights are not negative, \<^verbatim>\<open>union\<close> returns an
  object in format XYXY, and every entry of the area of the intersection, and so of
  \<^verbatim>\<open>intersection_area\<close>, is at least zero.
  The float32 tensors of the code leave exact arithmetic where a coordinate is \<open>nan\<close> or
  a difference overflows. The second theorem below has two disjoint boxes with finite
  coordinates, \<open>(-2\<^sup>1\<^sup>2\<^sup>7, 0, 2\<^sup>1\<^sup>2\<^sup>7, 1)\<close> and \<open>(-2\<^sup>1\<^sup>2\<^sup>7, 2, 2\<^sup>1\<^sup>2\<^sup>7, 3)\<close>: the width of
  their intersection overflows to \<open>inf\<close>, the height is clamped to zero, and the area
  \<open>inf * 0\<close> is \<open>nan\<close>, which is not at least zero. A coordinate that is \<open>nan\<close> passes
  through \<^verbatim>\<open>torch.max\<close> and \<^verbatim>\<open>torch.clamp\<close> to the area as well.
\<close>

theorem intersection_area_nonneg:
  assumes "valid h a" and "valid h b"
    and "len h a = len h b" and "image_size (objects h ! a) = image_size (objects h ! b)"
  shows "(\<exists>h' r. intersection_boxes h a b = Inr (h', r) \<and> format (objects h' ! r) = XYWH
            \<and> (\<forall>c \<in> set (coordinates h' r). 0 \<le> fst (last2 c) \<and> 0 \<le> snd (last2 c))
            \<and> (\<forall>x \<in> set (area h' r). 0 \<le> x))
       \<and> (\<exists>h' r. union_boxes h a b = Inr (h', r) \<and> format (objects h' ! r) = XYXY)
       \<and> (normalized (objects h ! a) = normalized (objects h ! b) \<longrightarrow>
            (\<exists>xs. intersection_area h a b = Inr xs \<and> (\<forall>x \<in> set xs. 0 \<le> x)))"
proof -
  from set_ops_ok(2) [OF assms] obtain hi ri where i:
    "intersection_boxes h a b = Inr (hi, ri)" "format (objects hi ! ri) = XYWH"
    "\<forall>c \<in> set (coordinates hi ri). 0 \<le> fst (last2 c) \<and> 0 \<le> snd (last2 c)"
    by blast
  from area_xywh_nonneg [OF i(2,3)] have n: "\<forall>x \<in> set (area hi ri). 0 \<le> x" .
  from set_ops_ok(1) [OF assms] obtain hu ru where u:
    "union_boxes h a b = Inr (hu, ru)" "format (objects hu ! ru) = XYXY"
    by blast
  have "normalized (objects h ! a) = normalized (objects h ! b) \<longrightarrow>
            (\<exists>xs. intersection_area h a b = Inr xs \<and> (\<forall>x \<in> set xs. 0 \<le> x))"
    using n by (simp add: intersection_area_def i(1))
  with i n u show ?thesis by blast
qed

theorem intersection_area_float32:
  "area32 (intersection32 (Num (- (2 ^ 127)), Num 0, Num (2 ^ 127), Num 1)
                          (Num (- (2 ^ 127)), Num 2, Num (2 ^ 127), Num 3)) = NaN
   \<and> nonneg32 (area32 (intersection32 (Num (- (2 ^ 127)), Num 0, Num (2 ^ 127), Num 1)
                          (Num (- (2 ^ 127)), Num 2, Num (2 ^ 127), Num 3))) = False
   \<and> area32 (intersection32 (NaN, Num 0, Num 1, Num 1) (Num 0, Num 0, Num 1, Num 1)) = NaN"
  by (simp add: area32_def intersection32_def overflow32_def)

text \<open>
  C6. \<^verbatim>\<open>union\<close>, \<^verbatim>\<open>intersection\<close> and \<^verbatim>\<open>union_area\<close> raise an error whenever
  the operands differ in the number of boxes or in the image size; \<^verbatim>\<open>union\<close> and
  \<^verbatim>\<open>intersection\<close> succeed on operands of equal count and image size whatever their
  formats; \<^verbatim>\<open>union_area\<close> and \<^verbatim>\<open>intersection_area\<close> raise the normalization error
  whenever the operands differ in normalization state, and succeed otherwise on operands of
  equal count and image size.
\<close>

theorem set_operations_errors:
  assumes "valid h a" and "valid h b"
  shows "(len h a \<noteq> len h b \<longrightarrow>
            union_boxes h a b = Inl (ValueError ''The number of bounding boxes must be the same'')
          \<and> intersection_boxes h a b
              = Inl (ValueError ''The number of bounding boxes must be the same'')
          \<and> isl (union_area h a b))
       \<and> (len h a = len h b \<and> image_size (objects h ! a) \<noteq> image_size (objects h ! b) \<longrightarrow>
            union_boxes h a b = Inl (ValueError ''The bounding box image size must be the same'')
          \<and> intersection_boxes h a b
              = Inl (ValueError ''The bounding box image size must be the same'')
          \<and> isl (union_area h a b))
       \<and> (len h a = len h b \<and> image_size (objects h ! a) = image_size (objects h ! b) \<longrightarrow>
            \<not> isl (union_boxes h a b) \<and> \<not> isl (intersection_boxes h a b))
       \<and> (normalized (objects h ! a) \<noteq> normalized (objects h ! b) \<longrightarrow>
            union_area h a b
              = Inl (ValueError ''The bounding boxes must have the same normalization.'')
          \<and> intersection_area h a b
              = Inl (ValueError ''The bounding boxes must have the same normalization.''))
       \<and> (len h a = len h b \<and> image_size (objects h ! a) = image_size (objects h ! b)
            \<and> normalized (objects h ! a) = normalized (objects h ! b) \<longrightarrow>
            \<not> isl (union_area h a b) \<and> \<not> isl (intersection_area h a b))"
proof (intro conjI impI)
  assume d: "len h a \<noteq> len h b"
  from set_ops_errors(1) [OF assms d]
  show "union_boxes h a b = Inl (ValueError ''The number of bounding boxes must be the same'')"
    and i: "intersection_boxes h a b
          = Inl (ValueError ''The number of bounding boxes must be the same'')"
    by simp_all
  show "isl (union_area h a b)"
    by (simp add: union_area_def intersection_area_def i Let_def)
next
  assume d: "len h a = len h b \<and> image_size (objects h ! a) \<noteq> image_size (objects h ! b)"
  from set_ops_errors(2) [OF assms] d
  show "union_boxes h a b = Inl (ValueError ''The bounding box image size must be the same'')"
    and i: "intersection_boxes h a b
          = Inl (ValueError ''The bounding box image size must be the same'')"
    by simp_all
  show "isl (union_area h a b)"
    by (simp add: union_area_def intersection_area_def i Let_def)
next
  assume c: "len h a = len h b \<and> image_size (objects h ! a) = image_size (objects h ! b)"
  then have c1: "len h a = len h b" and c2: "image_size (objects h ! a) = image_size (objects h ! b)"
    by simp_all
  from set_ops_ok(1) [OF assms c1 c2] show "\<not> isl (union_boxes h a b)" by auto
  from set_ops_ok(2) [OF assms c1 c2] show "\<not> isl (intersection_boxes h a b)" by auto
next
  assume "normalized (objects h ! a) \<noteq> normalized (objects h ! b)"
  then show "union_area h a b
               = Inl (ValueError ''The bounding boxes must have the same normalization.'')"
    and "intersection_area h a b
               = Inl (ValueError ''The bounding boxes must have the same normalization.'')"
    by (simp_all add: union_area_def intersection_area_def)
next
  assume c: "len h a = len h b \<and> image_size (objects h ! a) = image_size (objects h ! b)
             \<and> normalized (objects h ! a) = normalized (objects h ! b)"
  then have c1: "len h a = len h b" and c2: "image_size (objects h ! a) = image_size (objects h ! b)"
    and c3: "normalized (objects h ! a) = normalized (objects h ! b)"
    by simp_all
  from set_ops_ok(2) [OF assms c1 c2] obtain hi ri where
    i: "intersection_boxes h a b = Inr (hi, ri)" by blast
  show "\<not> isl (intersection_area h a b)"
    by (simp add: intersection_area_def c3 i)
  then show "\<not> isl (union_area h a b)"
    by (simp add: union_area_def intersection_area_def c3 i Let_def)
qed

lemmas vec_defs = first2_def last2_def cat2_def add2_def sub2_def half2_def min2_def max2_def
  clamp_min0_def div4_def mul4_def norm_factor_def

lemmas boxes_defs = to_xyxy_def to_xywh_def to_cxcywh_def normalize_boxes_def denormalize_def
  convert_def convert_like_def new_boxes_eq check_compatibility_def len_def coordinates_def
  area_def union_boxes_def intersection_boxes_def intersection_area_def union_area_def iou_def

text \<open>
  C7. For the boxes \<open>[[0, 0, 2, 2]]\<close> and \<open>[[1, 1, 3, 3]]\<close> in format XYXY, not
  normalized, on a \<open>10\<times>10\<close> image, the intersection area is 1, the union area is 7, and
  the IoU is \<open>0.01 / (0.07 + eps)\<close>, which is \<open>1/7\<close> up to one millionth.
\<close>

theorem iou_example:
  "intersection_area
     \<lparr>tensors = [[(0, 0, 2, 2)], [(1, 1, 3, 3)]],
      objects = [\<lparr>coordinates_ref = 0, format = XYXY, normalized = False, image_size = (10, 10)\<rparr>,
                 \<lparr>coordinates_ref = 1, format = XYXY, normalized = False, image_size = (10, 10)\<rparr>]\<rparr>
     0 1 = Inr [1]
   \<and> union_area
     \<lparr>tensors = [[(0, 0, 2, 2)], [(1, 1, 3, 3)]],
      objects = [\<lparr>coordinates_ref = 0, format = XYXY, normalized = False, image_size = (10, 10)\<rparr>,
                 \<lparr>coordinates_ref = 1, format = XYXY, normalized = False, image_size = (10, 10)\<rparr>]\<rparr>
     0 1 = Inr [7]
   \<and> iou
     \<lparr>tensors = [[(0, 0, 2, 2)], [(1, 1, 3, 3)]],
      objects = [\<lparr>coordinates_ref = 0, format = XYXY, normalized = False, image_size = (10, 10)\<rparr>,
                 \<lparr>coordinates_ref = 1, format = XYXY, normalized = False, image_size = (10, 10)\<rparr>]\<rparr>
     0 1 = Inr [(1 / 100) / (7 / 100 + eps)]
   \<and> \<bar>(1 / 100) / (7 / 100 + eps) - 1 / 7\<bar> < 1 / 10 ^ 6"
proof (intro conjI)
  let ?h = "\<lparr>tensors = [[(0, 0, 2, 2)], [(1, 1, 3, 3)]],
      objects = [\<lparr>coordinates_ref = 0, format = XYXY, normalized = False, image_size = (10, 10)\<rparr>,
                 \<lparr>coordinates_ref = 1, format = XYXY, normalized = False, image_size = (10, 10)\<rparr>]\<rparr>"
  show "intersection_area ?h 0 1 = Inr [1]"
    by (simp add: boxes_defs vec_defs nth_append)
  show "union_area ?h 0 1 = Inr [7]"
    by (simp add: boxes_defs vec_defs nth_append)
  show "iou ?h 0 1 = Inr [(1 / 100) / (7 / 100 + eps)]"
    by (simp add: boxes_defs vec_defs nth_append)
  show "\<bar>(1 / 100) / (7 / 100 + eps) - 1 / 7\<bar> < 1 / 10 ^ 6"
    by (simp add: eps_def)
qed

theorem set_operations_errors_witness:
  "union_boxes
     \<lparr>tensors = [[(0, 0, 2, 2)], [(1, 1, 2, 2)], [(1, 1, 2, 2), (0, 0, 1, 1)]],
      objects = [\<lparr>coordinates_ref = 0, format = XYXY, normalized = False, image_size = (10, 10)\<rparr>,
                 \<lparr>coordinates_ref = 1, format = XYWH, normalized = True, image_size = (10, 10)\<rparr>,
                 \<lparr>coordinates_ref = 2, format = XYXY, normalized = False, image_size = (10, 10)\<rparr>]\<rparr>
     0 2 = Inl (ValueError ''The number of bounding boxes must be the same'')
   \<and> isl (union_area
     \<lparr>tensors = [[(0, 0, 2, 2)], [(1, 1, 2, 2)], [(1, 1, 2, 2), (0, 0, 1, 1)]],
      objects = [\<lparr>coordinates_ref = 0, format = XYXY, normalized = False, image_size = (10, 10)\<rparr>,
                 \<lparr>coordinates_ref = 1, format = XYWH, normalized = True, image_size = (10, 10)\<rparr>,
                 \<lparr>coordinates_ref = 2, format = XYXY, normalized = False, image_size = (10, 10)\<rparr>]\<rparr>
     0 2)
   \<and> \<not> isl (intersection_boxes
     \<lparr>tensors = [[(0, 0, 2, 2)], [(1, 1, 2, 2)], [(1, 1, 2, 2), (0, 0, 1, 1)]],
      objects = [\<lparr>coordinates_ref = 0, format = XYXY, normalized = False, image_size = (10, 10)\<rparr>,
                 \<lparr>coordinates_ref = 1, format = XYWH, normalized = True, image_size = (10, 10)\<rparr>,
                 \<lparr>coordinates_ref = 2, format = XYXY, normalized = False, image_size = (10, 10)\<rparr>]\<rparr>
     0 1)
   \<and> intersection_area
     \<lparr>tensors = [[(0, 0, 2, 2)], [(1, 1, 2, 2)], [(1, 1, 2, 2), (0, 0, 1, 1)]],
      objects = [\<lparr>coordinates_ref = 0, format = XYXY, normalized = False, image_size = (10, 10)\<rparr>,
                 \<lparr>coordinates_ref = 1, format = XYWH, normalized = True, image_size = (10, 10)\<rparr>,
                 \<lparr>coordinates_ref = 2, format = XYXY, normalized = False, image_size = (10, 10)\<rparr>]\<rparr>
     0 1 = Inl (ValueError ''The bounding boxes must have the same normalization.'')"
  using
    set_operations_errors [of
      "\<lparr>tensors = [[(0, 0, 2, 2)], [(1, 1, 2, 2)], [(1, 1, 2, 2), (0, 0, 1, 1)]],
      objects = [\<lparr>coordinates_ref = 0, format = XYXY, normalized = False, image_size = (10, 10)\<rparr>,
                 \<lparr>coordinates_ref = 1, format = XYWH, normalized = True, image_size = (10, 10)\<rparr>,
                 \<lparr>coordinates_ref = 2, format = XYXY, normalized = False, image_size = (10, 10)\<rparr>]\<rparr>"
      0 2]
    set_operations_errors [of
      "\<lparr>tensors = [[(0, 0, 2, 2)], [(1, 1, 2, 2)], [(1, 1, 2, 2), (0, 0, 1, 1)]],
      objects = [\<lparr>coordinates_ref = 0, format = XYXY, normalized = False, image_size = (10, 10)\<rparr>,
                 \<lparr>coordinates_ref = 1, format = XYWH, normalized = True, image_size = (10, 10)\<rparr>,
                 \<lparr>coordinates_ref = 2, format = XYXY, normalized = False, image_size = (10, 10)\<rparr>]\<rparr>"
      0 1]
  by (simp add: valid_def len_def coordinates_def)

theorem intersection_area_nonneg_witness:
  "format (objects (fst (projr (intersection_boxes
     \<lparr>tensors = [[(0, 0, 2, 2)], [(5, 5, 1, 1)]],
      objects = [\<lparr>coordinates_ref = 0, format = XYXY, normalized = False, image_size = (10, 10)\<rparr>,
                 \<lparr>coordinates_ref = 1, format = XYWH, normalized = False, image_size = (10, 10)\<rparr>]\<rparr>
     0 1))) ! snd (projr (intersection_boxes
     \<lparr>tensors = [[(0, 0, 2, 2)], [(5, 5, 1, 1)]],
      objects = [\<lparr>coordinates_ref = 0, format = XYXY, normalized = False, image_size = (10, 10)\<rparr>,
                 \<lparr>coordinates_ref = 1, format = XYWH, normalized = False, image_size = (10, 10)\<rparr>]\<rparr>
     0 1))) = XYWH
   \<and> intersection_area
     \<lparr>tensors = [[(0, 0, 2, 2)], [(5, 5, 1, 1)]],
      objects = [\<lparr>coordinates_ref = 0, format = XYXY, normalized = False, image_size = (10, 10)\<rparr>,
                 \<lparr>coordinates_ref = 1, format = XYWH, normalized = False, image_size = (10, 10)\<rparr>]\<rparr>
     0 1 = Inr [0]"
proof -
  let ?h = "\<lparr>tensors = [[(0, 0, 2, 2)], [(5, 5, 1, 1)]],
      objects = [\<lparr>coordinates_ref = 0, format = XYXY, normalized = False, image_size = (10, 10)\<rparr>,
                 \<lparr>coordinates_ref = 1, format = XYWH, normalized = False, image_size = (10, 10)\<rparr>]\<rparr>"
  have "valid ?h 0" and "valid ?h 1" and "len ?h 0 = len ?h 1"
    and "image_size (objects ?h ! 0) = image_size (objects ?h ! 1)"
    by (simp_all add: valid_def len_def coordinates_def)
  from intersection_area_nonneg [OF this]
  obtain h' r where "intersection_boxes ?h 0 1 = Inr (h', r)" "format (objects h' ! r) = XYWH"
    by blast
  then have "format (objects (fst (projr (intersection_boxes ?h 0 1)))
      ! snd (projr (intersection_boxes ?h 0 1))) = XYWH"
    by simp
  moreover have "intersection_area ?h 0 1 = Inr [0]"
    by (simp add: boxes_defs vec_defs nth_append)
  ultimately show ?thesis by blast
qed

section \<open>Properties of the attention layers\<close>

subsection \<open>Masked keys in the cross-attention\<close>

lemma logit_add_NegInf_iff [simp]: "logit_add x l = NegInf \<longleftrightarrow> l = NegInf"
  by (cases l) simp_all

lemma logit_exp_zero_iff [simp]: "logit_exp l = 0 \<longleftrightarrow> l = NegInf"
  by (cases l) simp_all

lemma length_tasks_att_mask [simp]:
  "length (tasks_att_mask ca key_mask rd h) = length rd"
  by (simp add: tasks_att_mask_def)



lemma length_sdpa_logits [simp]:
  "length (sdpa_logits q k am) = min (length q) (length am)"
  by (simp add: sdpa_logits_def)






lemma softmax_logits_all_masked:
  assumes "list_all (\<lambda>l. l = NegInf) ls"
  shows "softmax_logits ls = replicate (length ls) 0"
  using assms by (simp add: softmax_logits_def map_replicate_const)






subsection \<open>Segments of the graph attention\<close>




lemma length_linear_new_Linear [simp]:
  "length (linear (new_Linear vals n m b) x) = m"
  by (simp add: linear_def new_Linear_def)










lemma length_scatter_sum [simp]:
  "length (scatter_sum rs src index n) = n"
  by (simp add: scatter_sum_def Let_def)












lemma ga1_init: "models_GraphAttention_init ga_values0 1 None None False True 1 (1 / 5) = Inr ga1"
  by (simp add: models_GraphAttention_init_def ga_values0_def ga1_def new_Linear_def)


lemma g2_graph_for: "graph_for 0 None g2"
  by (simp add: graph_for_def g2_def num_nodes_def)




end
